theory Spec2Isabelle
  imports Complex_Main
begin

section \<open>Python primitives used by the simulation code\<close>

text \<open>
  The surgical simulation backend is Python. Exceptions are values of \<open>error\<close>, a
  function that may raise returns \<open>error + 'a\<close> (\<open>Inl\<close> the exception). Python's unbounded
  \<open>int\<close> is \<open>int\<close>. Strings are byte strings (ASCII). A \<open>float\<close> is a \<open>real\<close>. Scores are
  computed with exact arithmetic. Where the code cuts a float down to an integer or to one
  decimal, or compares it with an integer, right after a product or quotient of integers
  (\<open>int(n * factor)\<close>, \<open>round(total / 60, 1)\<close>, \<open>total <= expected * 1.2\<close>), the operand is
  the double that the operation yields, see \<open>nearest_double\<close>; values beyond the range of
  normal doubles are outside the model.
\<close>

datatype error = IndexError | KeyError | ValueError | ZeroDivisionError | AttributeError

definition bind_err :: "error + 'a \<Rightarrow> ('a \<Rightarrow> error + 'b) \<Rightarrow> error + 'b" where
  "bind_err m f = (case m of Inl e \<Rightarrow> Inl e | Inr x \<Rightarrow> f x)"

text \<open>\<open>xs[i]\<close>: a negative index counts from the end; out of range raises IndexError.\<close>

definition py_index :: "'a list \<Rightarrow> int \<Rightarrow> error + 'a" where
  "py_index xs i =
     (if 0 \<le> i \<and> i < int (length xs) then Inr (xs ! nat i)
      else if i < 0 \<and> - int (length xs) \<le> i then Inr (xs ! nat (int (length xs) + i))
      else Inl IndexError)"

text \<open>\<open>d[k]\<close> on a dict (an association list, in insertion order).\<close>

definition dict_get :: "('k \<times> 'v) list \<Rightarrow> 'k \<Rightarrow> error + 'v" where
  "dict_get d k = (case map_of d k of None \<Rightarrow> Inl KeyError | Some v \<Rightarrow> Inr v)"

text \<open>\<open>str.lower()\<close> on ASCII.\<close>

definition lower_char :: "char \<Rightarrow> char" where
  "lower_char c =
     (case map_of (zip ''ABCDEFGHIJKLMNOPQRSTUVWXYZ'' ''abcdefghijklmnopqrstuvwxyz'') c of
        None \<Rightarrow> c
      | Some l \<Rightarrow> l)"

definition lower :: "string \<Rightarrow> string" where
  "lower s = map lower_char s"

primrec starts_with :: "string \<Rightarrow> string \<Rightarrow> bool" where
  "starts_with [] s = True"
| "starts_with (p # ps) s = (case s of [] \<Rightarrow> False | c # cs \<Rightarrow> p = c \<and> starts_with ps cs)"

text \<open>\<open>sub in s\<close> on strings.\<close>

primrec str_contains :: "string \<Rightarrow> string \<Rightarrow> bool" where
  "str_contains sub [] = (sub = [])"
| "str_contains sub (c # cs) = (starts_with sub (c # cs) \<or> str_contains sub cs)"

text \<open>\<open>s.replace(old, new)\<close>: every non-overlapping occurrence, left to right.\<close>

function replace_str :: "string \<Rightarrow> string \<Rightarrow> string \<Rightarrow> string" where
  "replace_str old new [] = (if old = [] then new else [])"
| "replace_str old new (c # cs) =
     (if old = [] then new @ c # replace_str old new cs
      else if starts_with old (c # cs)
           then new @ replace_str old new (drop (length old) (c # cs))
           else c # replace_str old new cs)"
  by pat_completeness auto
termination
  by (relation "measure (\<lambda>(old, new, s). length s)") auto

text \<open>\<open>s.split(sep)\<close> for a one-character separator.\<close>

primrec split_on :: "char \<Rightarrow> string \<Rightarrow> string list" where
  "split_on sep [] = [[]]"
| "split_on sep (c # cs) =
     (if c = sep then [] # split_on sep cs
      else (case split_on sep cs of [] \<Rightarrow> [[c]] | w # ws \<Rightarrow> (c # w) # ws))"

text \<open>
  \<open>int(s)\<close> on a string: surrounding ASCII whitespace is stripped, one sign is
  accepted, the rest must be a non-empty run of decimal digits; anything else raises
  ValueError. (Digit grouping with underscores and non-ASCII digits are outside the model.)
\<close>

definition is_space :: "char \<Rightarrow> bool" where
  "is_space c = (c \<in> set [CHR '' '', CHR 0x09, CHR 0x0A, CHR 0x0B, CHR 0x0C, CHR 0x0D])"

definition strip :: "string \<Rightarrow> string" where
  "strip s = rev (dropWhile is_space (rev (dropWhile is_space s)))"

definition digit_val :: "char \<Rightarrow> nat option" where
  "digit_val c = map_of (zip ''0123456789'' [0, 1, 2, 3, 4, 5, 6, 7, 8, 9]) c"

primrec digits_value :: "nat \<Rightarrow> string \<Rightarrow> nat option" where
  "digits_value acc [] = Some acc"
| "digits_value acc (c # cs) =
     (case digit_val c of None \<Rightarrow> None | Some d \<Rightarrow> digits_value (acc * 10 + d) cs)"

definition py_int :: "string \<Rightarrow> error + int" where
  "py_int s =
     (let t = strip s;
          neg = (t \<noteq> [] \<and> hd t = CHR ''-'');
          body = (if t \<noteq> [] \<and> (hd t = CHR ''-'' \<or> hd t = CHR ''+'') then tl t else t)
      in if body = [] then Inl ValueError
         else (case digits_value 0 body of
                 None \<Rightarrow> Inl ValueError
               | Some n \<Rightarrow> Inr (if neg then - int n else int n)))"

text \<open>\<open>str(n)\<close> / the f-string rendering of an integer.\<close>

definition digit_char :: "nat \<Rightarrow> char" where
  "digit_char d = ''0123456789'' ! (d mod 10)"

fun nat_str :: "nat \<Rightarrow> string" where
  "nat_str n = (if n < 10 then [digit_char n] else nat_str (n div 10) @ [digit_char (n mod 10)])"

declare nat_str.simps [simp del]

definition int_str :: "int \<Rightarrow> string" where
  "int_str i = (if i < 0 then CHR ''-'' # nat_str (nat (- i)) else nat_str (nat i))"

text \<open>\<open>int(x)\<close> on a float: truncation toward zero.\<close>

definition trunc :: "real \<Rightarrow> int" where
  "trunc x = (if 0 \<le> x then \<lfloor>x\<rfloor> else \<lceil>x\<rceil>)"

text \<open>
  Doubles: 53 significant bits, round to nearest, ties to even. \<open>bit_length\<close> is
  \<open>int.bit_length\<close>; \<open>floor_log2 p q\<close> is the binary exponent of the positive quotient
  \<open>p / q\<close>; \<open>nearest_double p q\<close> is the double nearest to \<open>p / q\<close> (\<open>q\<close> positive),
  which is what the true division of two integers returns.
\<close>

function bit_length :: "int \<Rightarrow> nat" where
  "bit_length n = (if n \<le> 0 then 0 else Suc (bit_length (n div 2)))"
  by pat_completeness auto
termination
  by (relation "measure nat") auto

declare bit_length.simps [simp del]

definition floor_log2 :: "int \<Rightarrow> int \<Rightarrow> int" where
  "floor_log2 p q =
     (let e0 = int (bit_length p) - int (bit_length q)
      in if real_of_int q * power_int 2 e0 \<le> real_of_int p then e0 else e0 - 1)"

definition round_half_even :: "real \<Rightarrow> int" where
  "round_half_even y =
     (let f = \<lfloor>y\<rfloor> in
      if y - of_int f < 1 / 2 then f
      else if 1 / 2 < y - of_int f then f + 1
      else if even f then f else f + 1)"

definition nearest_double :: "int \<Rightarrow> int \<Rightarrow> real" where
  "nearest_double p q =
     (if p = 0 then 0
      else (let e = floor_log2 \<bar>p\<bar> q;
                m = round_half_even (real_of_int \<bar>p\<bar> / real_of_int q * power_int 2 (52 - e))
            in (if p < 0 then - 1 else 1) * real_of_int m * power_int 2 (e - 52)))"

text \<open>
  A float literal is given by the double it denotes: \<open>Double m k\<close> is \<open>m / 2 ^ k\<close>. The
  literals of the generator: \<open>1.5\<close> is exact, \<open>0.8\<close> and \<open>0.7\<close> are the doubles
  \<open>0x1.999999999999ap-1\<close> and \<open>0x1.6666666666666p-1\<close>.
\<close>

datatype pyfloat = Double int nat

definition float_1_5 :: pyfloat where
  "float_1_5 = Double 3 1"

definition float_0_8 :: pyfloat where
  "float_0_8 = Double 3602879701896397 52"

definition float_0_7 :: pyfloat where
  "float_0_7 = Double 3152519739159347 52"

text \<open>
  \<open>n * factor\<close> for an integer and a float: the integer is converted to the nearest
  double (an integer again) and the exact product is rounded to the nearest double.
\<close>

definition int_times_float :: "int \<Rightarrow> pyfloat \<Rightarrow> real" where
  "int_times_float n f =
     (case f of Double m k \<Rightarrow> nearest_double (\<lfloor>nearest_double n 1\<rfloor> * m) (2 ^ k))"

text \<open>
  The random module: each call site receives the natural number drawn for it.
  \<open>random.choice\<close> raises IndexError on an empty sequence.
\<close>

definition random_choice :: "nat \<Rightarrow> 'a list \<Rightarrow> error + 'a" where
  "random_choice k xs = (if xs = [] then Inl IndexError else Inr (xs ! (k mod length xs)))"

definition random_randint :: "nat \<Rightarrow> int \<Rightarrow> int \<Rightarrow> int" where
  "random_randint k a b = a + int (k mod nat (b - a + 1))"

fun map_err :: "('a \<Rightarrow> error + 'b) \<Rightarrow> 'a list \<Rightarrow> error + 'b list" where
  "map_err f [] = Inr []"
| "map_err f (x # xs) =
     bind_err (f x) (\<lambda>y. bind_err (map_err f xs) (\<lambda>ys. Inr (y # ys)))"

section \<open>Data model\<close>

text \<open>
  The documents of the backend are nested dicts. Each is a record with the keys the code
  reads or writes. A key is an \<open>option\<close> (\<open>None\<close>: the key is absent) when the code
  reads it with \<open>.get\<close>, when it is only set on some paths, or when documents built in
  the repository lack it: the simulation state of test\_app.py has no difficulty level,
  no complications, no category, and its step has a title, a description and a duration
  only; the state that the database layer returns has no \<open>simulation\<close> key. Subscripting
  an absent key raises KeyError. The keys that every document of the repository has
  (a scenario's \<open>procedure_info\<close> with its \<open>name\<close>, its \<open>steps\<close>, a step's \<open>title\<close> and
  \<open>description\<close>, the scores of a recorded assessment) are plain fields.
\<close>

record decision_point =
  dp_scenario :: string
  dp_options :: "string list"
  dp_correct_choice :: string

record complication =
  c_type :: string
  c_severity :: string
  c_location :: string
  c_trigger_step :: "int option"
  c_management_options :: "string list"

record step =
  step_number :: "int option"
  title :: string
  description :: string
  duration :: "string option"
  critical_points :: "string list option"
  instruments :: "string list option"
  guidance_level :: "string option"
  hints :: "string list option"
  decision_points :: "decision_point list option"
  time_pressure :: "bool option"
  learning_focus :: "string list option"
  assessment_weight :: "real option"
  step_complication :: "complication option"

text \<open>A step dict as the catalog literal writes it.\<close>

definition template_step ::
  "int \<Rightarrow> string \<Rightarrow> string \<Rightarrow> string \<Rightarrow> string list \<Rightarrow> string list \<Rightarrow> step" where
  "template_step n t d dur cps ins =
     \<lparr>step_number = Some n, title = t, description = d, duration = Some dur,
      critical_points = Some cps, instruments = Some ins, guidance_level = None, hints = None,
      decision_points = None, time_pressure = None, learning_focus = None,
      assessment_weight = None, step_complication = None\<rparr>"

text \<open>
  Step dicts are mutable objects. The object store holds them; a reference is an index
  into the store. A template refers to its steps by reference.
\<close>

type_synonym store = "step list"

record procedure_template =
  tmpl_name :: string
  tmpl_category :: string
  tmpl_base_duration :: int
  tmpl_steps :: "nat list"

record procedure_info =
  pi_name :: string
  pi_category :: "string option"
  estimated_duration :: "int option"

record scenario =
  procedure_info :: procedure_info
  steps :: "step list"
  complications :: "complication list option"
  learning_objectives :: "string list option"
  difficulty_level :: "string option"
  created_at :: "string option"

text \<open>\<open>SimulationGenerator\<close>'s instance state.\<close>

record generator =
  procedure_templates :: "(string \<times> procedure_template) list"
  complication_library :: "(string \<times> (string \<times> string list) list) list"

text \<open>The values drawn from the random module by one call of \<open>generate_scenario\<close>.\<close>

record draws =
  r_random :: real
  r_type :: nat
  r_severity :: nat
  r_location :: nat
  r_trigger :: nat

section \<open>Scenario generator (simulation\_generator.py)\<close>

definition load_complications :: "(string \<times> (string \<times> string list) list) list" where
  "load_complications =
     [(''bleeding'',
        [(''severity'', [''mild'', ''moderate'', ''severe'']),
         (''locations'', [''trocar site'', ''liver bed'', ''mesenteric vessel'']),
         (''management'', [''pressure'', ''electrocautery'', ''clip application'', ''conversion''])]),
      (''bowel_injury'',
        [(''severity'', [''serosal'', ''full_thickness'']),
         (''locations'', [''small bowel'', ''colon'']),
         (''management'', [''primary repair'', ''resection'', ''conversion''])]),
      (''equipment_failure'',
        [(''type'', [''CO2 insufflator'', ''electrocautery'', ''camera'']),
         (''management'', [''backup equipment'', ''troubleshooting'', ''conversion''])])]"

definition extend_duration :: "string \<Rightarrow> pyfloat \<Rightarrow> error + string" where
  "extend_duration duration_str factor =
     (let parts = split_on CHR ''-'' (replace_str '' minutes'' [] duration_str) in
      bind_err (py_index parts 0) (\<lambda>p0. bind_err (py_int p0) (\<lambda>a.
        let min_time = int_times_float a factor in
        bind_err (py_index parts 1) (\<lambda>p1. bind_err (py_int p1) (\<lambda>b.
          let max_time = int_times_float b factor in
          Inr (int_str (trunc min_time) @ ''-'' @ int_str (trunc max_time) @ '' minutes''))))))"

definition reduce_duration :: "string \<Rightarrow> pyfloat \<Rightarrow> error + string" where
  "reduce_duration duration_str factor =
     (let parts = split_on CHR ''-'' (replace_str '' minutes'' [] duration_str) in
      bind_err (py_index parts 0) (\<lambda>p0. bind_err (py_int p0) (\<lambda>a.
        let min_time = int_times_float a factor in
        bind_err (py_index parts 1) (\<lambda>p1. bind_err (py_int p1) (\<lambda>b.
          let max_time = int_times_float b factor in
          Inr (int_str (trunc min_time) @ ''-'' @ int_str (trunc max_time) @ '' minutes''))))))"

definition generate_beginner_hints :: "step \<Rightarrow> string list" where
  "generate_beginner_hints s =
     [''Take your time with '' @ lower (title s),
      ''Ensure proper visualization before proceeding'',
      ''Communicate with your team throughout the step'']"

definition add_decision_points :: "step \<Rightarrow> decision_point list" where
  "add_decision_points s =
     [\<lparr>dp_scenario = ''Unusual anatomy encountered'',
       dp_options = [''Continue with caution'', ''Seek senior help'', ''Convert to open''],
       dp_correct_choice = ''Seek senior help''\<rparr>]"

text \<open>\<open>step["duration"]\<close>: KeyError when the key is absent.\<close>

definition require_key :: "'a option \<Rightarrow> error + 'a" where
  "require_key v = (case v of None \<Rightarrow> Inl KeyError | Some x \<Rightarrow> Inr x)"

text \<open>
  The body of the loop of \<open>_customize_steps_for_difficulty\<close>. In the \<open>advanced\<close> branch the
  second statement calls \<open>self._add_technique_variations\<close>, a method the class does not
  define: the attribute lookup raises AttributeError before the duration is touched (the
  statement after it would call \<open>_reduce_duration\<close> with \<open>float_0_8\<close>).
\<close>

definition customize_step :: "string \<Rightarrow> step \<Rightarrow> error + step" where
  "customize_step difficulty s =
     (if difficulty = ''beginner'' then
        (let s1 = s\<lparr>guidance_level := Some ''detailed''\<rparr>;
             s2 = s1\<lparr>hints := Some (generate_beginner_hints s1)\<rparr>
         in bind_err (require_key (duration s2)) (\<lambda>d.
            bind_err (extend_duration d float_1_5) (\<lambda>d'. Inr (s2\<lparr>duration := Some d'\<rparr>))))
      else if difficulty = ''intermediate'' then
        (let s1 = s\<lparr>guidance_level := Some ''moderate''\<rparr>
         in Inr (s1\<lparr>decision_points := Some (add_decision_points s1)\<rparr>))
      else if difficulty = ''advanced'' then Inl AttributeError
      else if difficulty = ''expert'' then
        (let s1 = s\<lparr>guidance_level := Some ''none''\<rparr>;
             s2 = s1\<lparr>time_pressure := Some True\<rparr>
         in bind_err (require_key (duration s2)) (\<lambda>d.
            bind_err (reduce_duration d float_0_7) (\<lambda>d'. Inr (s2\<lparr>duration := Some d'\<rparr>))))
      else Inr s)"

text \<open>
  \<open>json.loads(json.dumps(base_steps))\<close>: fresh copies of the referenced steps are
  allocated at the end of the store.
\<close>

definition deep_copy :: "store \<Rightarrow> nat list \<Rightarrow> store \<times> nat list" where
  "deep_copy st refs =
     (st @ map (\<lambda>r. st ! r) refs, [length st ..< length st + length refs])"

text \<open>The \<open>for step in steps\<close> loop: each referenced step is updated in place.\<close>

fun customize_loop :: "string \<Rightarrow> nat list \<Rightarrow> store \<Rightarrow> store \<times> error option" where
  "customize_loop difficulty [] st = (st, None)"
| "customize_loop difficulty (r # rs) st =
     (case customize_step difficulty (st ! r) of
        Inl e \<Rightarrow> (st, Some e)
      | Inr s \<Rightarrow> customize_loop difficulty rs (st[r := s]))"

definition customize_steps_for_difficulty ::
  "store \<Rightarrow> nat list \<Rightarrow> string \<Rightarrow> store \<times> (error + nat list)" where
  "customize_steps_for_difficulty st base_steps difficulty =
     (case deep_copy st base_steps of (st1, step_refs) \<Rightarrow>
        (case customize_loop difficulty step_refs st1 of
           (st2, Some e) \<Rightarrow> (st2, Inl e)
         | (st2, None) \<Rightarrow> (st2, Inr step_refs)))"

definition objective_matches :: "string \<Rightarrow> step \<Rightarrow> bool" where
  "objective_matches objective s =
     (str_contains (lower objective) (lower (title s))
      \<or> str_contains (lower objective) (lower (description s)))"

primrec enhance_objectives :: "string list \<Rightarrow> step \<Rightarrow> step" where
  "enhance_objectives [] s = s"
| "enhance_objectives (objective # rest) s =
     enhance_objectives rest
       (if objective_matches objective s
        then s\<lparr>learning_focus := Some (case_option [] id (learning_focus s) @ [objective]),
               assessment_weight := Some 2\<rparr>
        else s)"

definition enhance_step :: "string list \<Rightarrow> step \<Rightarrow> step" where
  "enhance_step objectives s = enhance_objectives objectives (s\<lparr>learning_focus := Some []\<rparr>)"

fun enhance_steps_for_objectives :: "store \<Rightarrow> nat list \<Rightarrow> string list \<Rightarrow> store" where
  "enhance_steps_for_objectives st [] objectives = st"
| "enhance_steps_for_objectives st (r # rs) objectives =
     enhance_steps_for_objectives (st[r := enhance_step objectives (st ! r)]) rs objectives"

definition prob_map :: "(string \<times> real) list" where
  "prob_map = [(''beginner'', 0.3), (''intermediate'', 0.5), (''advanced'', 0.7), (''expert'', 0.8)]"

definition possible_complications :: "string \<Rightarrow> string list" where
  "possible_complications procedure_type =
     (if procedure_type = ''laparoscopic_cholecystectomy''
      then [''bleeding'', ''bowel_injury'', ''equipment_failure'']
      else [''bleeding'', ''equipment_failure''])"

definition generate_complications ::
  "generator \<Rightarrow> string \<Rightarrow> string \<Rightarrow> draws \<Rightarrow> error + complication list" where
  "generate_complications self procedure_type difficulty rng =
     (if r_random rng < (case map_of prob_map difficulty of None \<Rightarrow> 0.5 | Some p \<Rightarrow> p) then
        bind_err (random_choice (r_type rng) (possible_complications procedure_type))
          (\<lambda>selected_complication.
        bind_err (dict_get (complication_library self) selected_complication)
          (\<lambda>complication_data.
        bind_err (dict_get complication_data ''severity'') (\<lambda>severities.
        bind_err (random_choice (r_severity rng) severities) (\<lambda>sev.
        bind_err (dict_get complication_data ''locations'') (\<lambda>locations.
        bind_err (random_choice (r_location rng) locations) (\<lambda>loc.
        bind_err (dict_get complication_data ''management'') (\<lambda>management.
          Inr [\<lparr>c_type = selected_complication, c_severity = sev, c_location = loc,
                c_trigger_step = Some (random_randint (r_trigger rng) 2 5),
                c_management_options = management\<rparr>])))))))
      else Inr [])"

fun calculate_duration_loop :: "step list \<Rightarrow> real \<Rightarrow> error + real" where
  "calculate_duration_loop [] total_min = Inr total_min"
| "calculate_duration_loop (s # rest) total_min =
     bind_err (require_key (duration s)) (\<lambda>duration_str.
     bind_err (map_err py_int (split_on CHR ''-'' (replace_str '' minutes'' [] duration_str)))
       (\<lambda>xs. calculate_duration_loop rest (total_min + real_of_int (sum_list xs) / 2)))"

definition calculate_duration :: "step list \<Rightarrow> string \<Rightarrow> error + int" where
  "calculate_duration step_docs difficulty =
     bind_err (calculate_duration_loop step_docs 0) (\<lambda>total_min. Inr (trunc total_min))"

text \<open>
  \<open>generate_scenario\<close> returns the store it leaves behind and either the exception or
  the scenario document (its steps read from the store, as it is then serialised).
\<close>

definition generate_scenario ::
  "generator \<Rightarrow> store \<Rightarrow> string \<Rightarrow> string \<Rightarrow> 'p \<Rightarrow> string list \<Rightarrow> bool \<Rightarrow> draws \<Rightarrow> string
     \<Rightarrow> store \<times> (error + scenario)" where
  "generate_scenario self st procedure_type difficulty patient_profile objectives
       complications_enabled rng now =
     (case map_of (procedure_templates self) procedure_type of
        None \<Rightarrow> (st, Inl ValueError)
      | Some template \<Rightarrow>
          (case customize_steps_for_difficulty st (tmpl_steps template) difficulty of
             (st1, Inl e) \<Rightarrow> (st1, Inl e)
           | (st1, Inr step_refs) \<Rightarrow>
               (let st2 = enhance_steps_for_objectives st1 step_refs objectives;
                    step_docs = map (\<lambda>r. st2 ! r) step_refs
                in (st2,
                    bind_err (if complications_enabled
                              then generate_complications self procedure_type difficulty rng
                              else Inr [])
                      (\<lambda>comps.
                    bind_err (calculate_duration step_docs difficulty) (\<lambda>est.
                      Inr \<lparr>procedure_info =
                             \<lparr>pi_name = tmpl_name template,
                              pi_category = Some (tmpl_category template),
                              estimated_duration = Some est\<rparr>,
                           steps = step_docs, complications = Some comps,
                           learning_objectives = Some objectives,
                           difficulty_level = Some difficulty,
                           created_at = Some now\<rparr>))))))"

text \<open>
  \<open>_load_procedure_templates\<close>: the literal allocates seventeen step dicts; the three
  templates refer to them.
\<close>

definition catalog_steps :: store where
  "catalog_steps =
     [template_step 1 ''Patient Preparation''
        ''Position patient supine, prep and drape surgical site'' ''10-15 minutes''
        [''Proper patient positioning'', ''Sterile field maintenance'', ''Antibiotic prophylaxis'']
        [''surgical drapes'', ''prep solution'', ''positioning aids''],
      template_step 2 ''Trocar Placement''
        ''Create pneumoperitoneum and insert trocars'' ''10-15 minutes''
        [''Safe entry technique'', ''Proper CO2 insufflation'', ''Trocar positioning'']
        [''veress needle'', ''trocars'', ''CO2 insufflator''],
      template_step 3 ''Diagnostic Laparoscopy''
        ''Inspect abdominal cavity and identify anatomy'' ''5-10 minutes''
        [''Systematic inspection'', ''Adhesion identification'', ''Anatomical orientation'']
        [''laparoscope'', ''graspers''],
      template_step 4 ''Critical View of Safety''
        ''Achieve critical view of safety before dissection'' ''15-20 minutes''
        [''Clear identification of Calot's triangle'', ''Only 2 structures entering gallbladder'',
         ''Clear view of liver bed'']
        [''graspers'', ''dissector'', ''clip applier''],
      template_step 5 ''Gallbladder Dissection''
        ''Dissect gallbladder from liver bed'' ''15-25 minutes''
        [''Maintain proper plane'', ''Hemostasis control'', ''Avoid perforation'']
        [''electrocautery'', ''graspers'', ''irrigation''],
      template_step 6 ''Specimen Removal''
        ''Remove gallbladder and close incisions'' ''10-15 minutes''
        [''Secure specimen in bag'', ''Inspect for bleeding'', ''Remove CO2'']
        [''specimen bag'', ''sutures'', ''local anesthetic''],
      template_step 1 ''Patient Preparation''
        ''Position patient and establish pneumoperitoneum'' ''10-15 minutes''
        [''Left lateral tilt positioning'', ''Safe trocar insertion'', ''Adequate visualization'']
        [''trocars'', ''CO2 insufflator'', ''laparoscope''],
      template_step 2 ''Appendix Identification''
        ''Locate and mobilize the appendix'' ''5-10 minutes''
        [''Identify cecum and ileocecal valve'', ''Locate appendix base'',
         ''Assess inflammation extent'']
        [''graspers'', ''atraumatic forceps''],
      template_step 3 ''Mesoappendix Division''
        ''Divide mesoappendix and appendiceal artery'' ''10-15 minutes''
        [''Identify appendiceal artery'', ''Sequential clip application'', ''Avoid thermal injury'']
        [''clip applier'', ''electrocautery'', ''scissors''],
      template_step 4 ''Appendix Transection''
        ''Transect appendix and remove specimen'' ''5-10 minutes''
        [''Secure base with clips'', ''Transect between clips'', ''Remove specimen safely'']
        [''clip applier'', ''scissors'', ''specimen bag''],
      template_step 5 ''Closure''
        ''Close incisions and apply dressings'' ''5-10 minutes''
        [''Inspect for bleeding'', ''Close fascial defects'', ''Apply sterile dressings'']
        [''sutures'', ''dressings'', ''local anesthetic''],
      template_step 1 ''Patient Positioning''
        ''Position patient supine with knee flexed at 90 degrees'' ''10-15 minutes''
        [''Proper knee positioning'', ''Tourniquet application'', ''Sterile field preparation'']
        [''positioning aids'', ''tourniquet'', ''surgical drapes''],
      template_step 2 ''Portal Placement''
        ''Create anterolateral and anteromedial portals'' ''10-15 minutes''
        [''Proper portal positioning'', ''Avoid neurovascular structures'',
         ''Adequate portal spacing'']
        [''scalpel'', ''arthroscope'', ''cannulas''],
      template_step 3 ''Diagnostic Arthroscopy''
        ''Systematic examination of knee compartments'' ''15-20 minutes''
        [''Systematic compartment examination'', ''Documentation of findings'',
         ''Assessment of pathology'']
        [''arthroscope'', ''probe'', ''camera system''],
      template_step 4 ''Meniscal Assessment''
        ''Evaluate meniscal integrity and pathology'' ''20-30 minutes''
        [''Meniscal tear identification'', ''Stability assessment'', ''Treatment planning'']
        [''probe'', ''graspers'', ''meniscal instruments''],
      template_step 5 ''Cartilage Evaluation''
        ''Assess articular cartilage surfaces'' ''15-25 minutes''
        [''Cartilage defect mapping'', ''ICRS classification'', ''Treatment options'']
        [''probe'', ''measuring devices'', ''documentation tools''],
      template_step 6 ''Closure and Post-op''
        ''Close portals and apply dressings'' ''10-15 minutes''
        [''Portal closure'', ''Dressing application'', ''Post-operative instructions'']
        [''sutures'', ''dressings'', ''compression bandage'']]"

definition load_procedure_templates :: "(string \<times> procedure_template) list" where
  "load_procedure_templates =
     [(''laparoscopic_cholecystectomy'',
        \<lparr>tmpl_name = ''Laparoscopic Cholecystectomy'', tmpl_category = ''General Surgery'',
         tmpl_base_duration = 60, tmpl_steps = [0, 1, 2, 3, 4, 5]\<rparr>),
      (''appendectomy'',
        \<lparr>tmpl_name = ''Laparoscopic Appendectomy'', tmpl_category = ''General Surgery'',
         tmpl_base_duration = 45, tmpl_steps = [6, 7, 8, 9, 10]\<rparr>),
      (''knee_arthroscopy'',
        \<lparr>tmpl_name = ''Knee Arthroscopy'', tmpl_category = ''Orthopedic'',
         tmpl_base_duration = 90, tmpl_steps = [11, 12, 13, 14, 15, 16]\<rparr>)]"

text \<open>\<open>SimulationGenerator()\<close>: the generator and the store right after construction.\<close>

definition new_generator :: generator where
  "new_generator =
     \<lparr>procedure_templates = load_procedure_templates,
      complication_library = load_complications\<rparr>"

section \<open>Assessment documents\<close>

record action =
  a_type :: "string option"
  skill_category :: "string option"
  accuracy :: "real option"
  clarity :: "real option"
  timing :: "real option"
  professionalism :: "real option"
  outcome :: "string option"
  hesitation_time :: "real option"
  expected_time :: "real option"

record feedback =
  overall_level :: string
  summary :: "string option"
  technical_feedback :: string
  non_technical_feedback :: string
  recommendations :: "string list"

record step_assessment =
  sa_step_number :: int
  technical_score :: real
  non_technical_score :: real
  overall_score :: real
  sa_feedback :: "feedback option"
  time_taken :: int
  timestamp :: string
  areas_for_improvement :: "string list"

text \<open>The simulation state handed to the engine and to \<open>get_next_step\<close>.\<close>

record simulation_data =
  simulation :: "scenario option"
  step_assessments :: "step_assessment list option"
  simulation_id :: "string option"

text \<open>\<open>d.get(k, default)\<close>.\<close>

definition get_default :: "'a option \<Rightarrow> 'a \<Rightarrow> 'a" where
  "get_default v d = (case v of None \<Rightarrow> d | Some x \<Rightarrow> x)"

subsection \<open>Progress through the scenario\<close>




subsection \<open>Ad-hoc complications\<close>

datatype jvalue = JStr string | JList "string list" | JInt int

definition complication_scenarios :: "(string \<times> (string \<times> jvalue) list) list" where
  "complication_scenarios =
     [(''unexpected_bleeding'',
        [(''description'', JStr ''Unexpected bleeding from hepatic artery branch''),
         (''severity'', JStr ''moderate''),
         (''immediate_actions'',
            JList [''Apply direct pressure'', ''Identify bleeding source'',
                   ''Consider clip application'']),
         (''time_limit'', JInt 300)]),
      (''adhesions'',
        [(''description'', JStr ''Dense adhesions obscuring critical view''),
         (''severity'', JStr ''mild''),
         (''immediate_actions'',
            JList [''Careful adhesiolysis'', ''Maintain visualization'',
                   ''Consider alternative approach'']),
         (''time_limit'', JInt 600)])]"

text \<open>The result is a dict; \<open>complication_scenarios.get(selected, {})\<close>.\<close>

definition generate_dynamic_complication ::
  "simulation_data \<Rightarrow> int \<Rightarrow> nat \<Rightarrow> error + (string \<times> jvalue) list" where
  "generate_dynamic_complication sd current_step k =
     bind_err (require_key (simulation sd)) (\<lambda>sc.
       let procedure_type = pi_name (procedure_info sc) in
       bind_err (random_choice k [''unexpected_bleeding'', ''adhesions'', ''equipment_malfunction''])
         (\<lambda>selected. Inr (get_default (map_of complication_scenarios selected) [])))"

section \<open>Assessment engine (assessment\_engine.py)\<close>

record skill_scoring =
  max_score :: real
  weight :: real

record procedure_criteria =
  technical_skills :: "(string \<times> skill_scoring) list"
  non_technical_skills :: "(string \<times> skill_scoring) list"

text \<open>\<open>AssessmentEngine\<close>'s instance state.\<close>

record engine =
  scoring_criteria :: "(string \<times> procedure_criteria) list"
  feedback_templates :: "(string \<times> string list) list"

definition load_scoring_criteria :: "(string \<times> procedure_criteria) list" where
  "load_scoring_criteria =
     [(''laparoscopic_cholecystectomy'',
        \<lparr>technical_skills =
           [(''trocar_placement'', \<lparr>max_score = 20, weight = 0.15\<rparr>),
            (''camera_navigation'', \<lparr>max_score = 15, weight = 0.10\<rparr>),
            (''tissue_handling'', \<lparr>max_score = 25, weight = 0.20\<rparr>),
            (''critical_view_achievement'', \<lparr>max_score = 30, weight = 0.25\<rparr>),
            (''dissection_technique'', \<lparr>max_score = 25, weight = 0.20\<rparr>),
            (''hemostasis'', \<lparr>max_score = 15, weight = 0.10\<rparr>)],
         non_technical_skills =
           [(''communication'', \<lparr>max_score = 20, weight = 0.30\<rparr>),
            (''decision_making'', \<lparr>max_score = 25, weight = 0.35\<rparr>),
            (''time_management'', \<lparr>max_score = 20, weight = 0.20\<rparr>),
            (''team_leadership'', \<lparr>max_score = 15, weight = 0.15\<rparr>)]\<rparr>),
      (''appendectomy'',
        \<lparr>technical_skills =
           [(''appendix_identification'', \<lparr>max_score = 25, weight = 0.25\<rparr>),
            (''mesoappendix_division'', \<lparr>max_score = 30, weight = 0.30\<rparr>),
            (''base_division'', \<lparr>max_score = 25, weight = 0.25\<rparr>),
            (''specimen_removal'', \<lparr>max_score = 20, weight = 0.20\<rparr>)],
         non_technical_skills =
           [(''communication'', \<lparr>max_score = 20, weight = 0.30\<rparr>),
            (''decision_making'', \<lparr>max_score = 25, weight = 0.35\<rparr>),
            (''situational_awareness'', \<lparr>max_score = 20, weight = 0.35\<rparr>)]\<rparr>)]"

definition load_feedback_templates :: "(string \<times> string list) list" where
  "load_feedback_templates =
     [(''excellent'',
        [''Outstanding technique demonstrated'', ''Perfect execution of critical steps'',
         ''Excellent decision-making under pressure'']),
      (''good'',
        [''Good technique with minor areas for improvement'',
         ''Solid understanding of procedure demonstrated'',
         ''Appropriate response to complications'']),
      (''needs_improvement'',
        [''Technique needs refinement in key areas'',
         ''Consider additional practice on critical steps'',
         ''Review anatomical landmarks and approach'']),
      (''poor'',
        [''Significant technical errors identified'', ''Safety concerns with current approach'',
         ''Requires substantial additional training''])]"

definition new_engine :: engine where
  "new_engine =
     \<lparr>scoring_criteria = load_scoring_criteria, feedback_templates = load_feedback_templates\<rparr>"

definition skill_keywords :: "(string \<times> string list) list" where
  "skill_keywords =
     [(''trocar_placement'', [''trocar'', ''insertion'', ''pneumoperitoneum'']),
      (''camera_navigation'', [''laparoscopy'', ''visualization'', ''camera'']),
      (''tissue_handling'', [''dissection'', ''grasping'', ''manipulation'']),
      (''critical_view_achievement'', [''critical view'', ''safety'', ''triangle'']),
      (''dissection_technique'', [''dissect'', ''separate'', ''divide'']),
      (''hemostasis'', [''bleeding'', ''clip'', ''cautery'', ''hemostasis''])]"

definition is_skill_relevant_to_step :: "string \<Rightarrow> step \<Rightarrow> bool" where
  "is_skill_relevant_to_step skill s =
     (let step_title = lower (title s); step_desc = lower (description s) in
      case map_of skill_keywords skill of
        Some keywords \<Rightarrow>
          list_ex (\<lambda>keyword. str_contains keyword step_title \<or> str_contains keyword step_desc)
            keywords
      | None \<Rightarrow> False)"

primrec score_actions :: "string \<Rightarrow> action list \<Rightarrow> int \<Rightarrow> real \<Rightarrow> real" where
  "score_actions skill [] t score = score"
| "score_actions skill (a # rest) t score =
     score_actions skill rest t
       (if str_contains skill (lower (get_default (skill_category a) []))
        then (let score1 = (if get_default (accuracy a) 0 > 0.8 then score + 20
                            else if get_default (accuracy a) 0 > 0.6 then score + 15
                            else score + 5);
                  expected = get_default (expected_time a) 300
              in if real_of_int t > expected * 1.5 then score1 * 0.8 else score1)
        else score)"

definition score_technical_skill :: "string \<Rightarrow> action list \<Rightarrow> int \<Rightarrow> real" where
  "score_technical_skill skill actions t = min (score_actions skill actions t 0) 100"

primrec technical_loop ::
  "(string \<times> skill_scoring) list \<Rightarrow> step \<Rightarrow> action list \<Rightarrow> int \<Rightarrow> real \<times> real \<Rightarrow> real \<times> real"
  where
  "technical_loop [] s actions t acc = acc"
| "technical_loop (item # rest) s actions t acc =
     technical_loop rest s actions t
       (if is_skill_relevant_to_step (fst item) s
        then (let skill_score = score_technical_skill (fst item) actions t;
                  weighted_score = skill_score * weight (snd item)
              in (fst acc + weighted_score, snd acc + weight (snd item)))
        else acc)"

definition assess_technical_skills ::
  "engine \<Rightarrow> string \<Rightarrow> step \<Rightarrow> action list \<Rightarrow> int \<Rightarrow> real" where
  "assess_technical_skills self procedure_type s actions t =
     (case map_of (scoring_criteria self) procedure_type of
        None \<Rightarrow> 0
      | Some crit \<Rightarrow>
          (case technical_loop (technical_skills crit) s actions t (0, 0) of
             (total_score, total_weight) \<Rightarrow>
               if total_weight > 0 then total_score / total_weight * 100 else 0))"

primrec communication_loop :: "action list \<Rightarrow> real \<Rightarrow> real" where
  "communication_loop [] score = score"
| "communication_loop (comm # rest) score =
     communication_loop rest
       (let s1 = (if get_default (clarity comm) 0 > 0.8 then score + 25 else score);
            s2 = (if get_default (timing comm) 0 > 0.8 then s1 + 25 else s1)
        in if get_default (professionalism comm) 0 > 0.8 then s2 + 25 else s2)"

definition assess_communication :: "action list \<Rightarrow> real" where
  "assess_communication actions =
     (let communication_actions = filter (\<lambda>a. a_type a = Some ''communication'') actions in
      if communication_actions = [] then 50
      else min (communication_loop communication_actions 0) 100)"

primrec decision_loop :: "action list \<Rightarrow> real \<Rightarrow> real" where
  "decision_loop [] correct_decisions = correct_decisions"
| "decision_loop (decision # rest) correct_decisions =
     decision_loop rest
       (if outcome decision = Some ''correct'' then correct_decisions + 1
        else if outcome decision = Some ''safe_alternative'' then correct_decisions + 0.7
        else correct_decisions)"

definition assess_decision_making :: "action list \<Rightarrow> step \<Rightarrow> real" where
  "assess_decision_making actions s =
     (let decision_actions = filter (\<lambda>a. a_type a = Some ''decision'') actions in
      if decision_actions = [] then 70
      else (let correct_decisions = decision_loop decision_actions 0;
                total_decisions = length decision_actions
            in if total_decisions > 0 then correct_decisions / real total_decisions * 100
               else 70))"

definition assess_time_management :: "int \<Rightarrow> step \<Rightarrow> error + real" where
  "assess_time_management t s =
     (let duration_str = get_default (duration s) ''10-15 minutes'';
          duration_parts = split_on CHR ''-'' (replace_str '' minutes'' [] duration_str)
      in bind_err (py_index duration_parts 0) (\<lambda>p0. bind_err (py_int p0) (\<lambda>a.
         let expected_min = a * 60 in
         bind_err (py_index duration_parts 1) (\<lambda>p1. bind_err (py_int p1) (\<lambda>b.
         let expected_max = b * 60 in
         if expected_min \<le> t \<and> t \<le> expected_max then Inr 100
         else if t < expected_min then
           (if expected_min = 0 then Inl ZeroDivisionError
            else Inr (max 70 (100 - real_of_int (expected_min - t) / real_of_int expected_min * 30)))
         else
           (if expected_max = 0 then Inl ZeroDivisionError
            else Inr (max 30
                   (100 - real_of_int (t - expected_max) / real_of_int expected_max * 50))))))))"

definition awareness_indicators :: "string list" where
  "awareness_indicators =
     [''monitors_vitals'', ''checks_equipment'', ''communicates_status'',
      ''identifies_complications'', ''requests_assistance'']"

primrec awareness_loop :: "action list \<Rightarrow> real \<Rightarrow> real" where
  "awareness_loop [] score = score"
| "awareness_loop (a # rest) score =
     awareness_loop rest
       (let action_type = get_default (a_type a) [] in
        if list_ex (\<lambda>indicator. str_contains indicator action_type) awareness_indicators
        then score + 10 else score)"

definition assess_situational_awareness :: "action list \<Rightarrow> real" where
  "assess_situational_awareness actions = min (awareness_loop actions 70) 100"

definition assess_non_technical_skills :: "step \<Rightarrow> action list \<Rightarrow> int \<Rightarrow> error + real" where
  "assess_non_technical_skills s actions t =
     (let communication_score = assess_communication actions;
          decision_score = assess_decision_making actions s
      in bind_err (assess_time_management t s) (\<lambda>time_score.
         let awareness_score = assess_situational_awareness actions
         in Inr (communication_score * 0.30 + decision_score * 0.35 + time_score * 0.20
                 + awareness_score * 0.15)))"

definition generate_technical_feedback :: "real \<Rightarrow> action list \<Rightarrow> string" where
  "generate_technical_feedback score actions =
     (if score \<ge> 85
      then ''Excellent technical execution with proper instrument handling and surgical technique.''
      else if score \<ge> 70
      then ''Good technical skills demonstrated with room for refinement in precision.''
      else if score \<ge> 55
      then ''Technical skills need improvement. Focus on instrument control and anatomical identification.''
      else ''Significant technical deficiencies identified. Additional practice and supervision recommended.'')"

definition generate_non_technical_feedback :: "real \<Rightarrow> string" where
  "generate_non_technical_feedback score =
     (if score \<ge> 85
      then ''Outstanding communication and decision-making throughout the procedure.''
      else if score \<ge> 70
      then ''Good team interaction and appropriate clinical decisions made.''
      else if score \<ge> 55
      then ''Communication and decision-making skills need development.''
      else ''Poor team communication and questionable clinical decisions observed.'')"

definition generate_recommendations :: "real \<Rightarrow> step \<Rightarrow> string list" where
  "generate_recommendations score s =
     (if score < 70
      then [''Review '' @ lower (title s) @ '' technique in textbook'',
            ''Practice on simulation models before next attempt'',
            ''Seek mentorship for technique refinement'']
      else [])
     @ (if score < 85
        then [''Focus on smooth, deliberate movements'',
              ''Improve communication with surgical team'']
        else [])"

definition generate_step_feedback ::
  "engine \<Rightarrow> real \<Rightarrow> real \<Rightarrow> real \<Rightarrow> step \<Rightarrow> action list \<Rightarrow> nat \<Rightarrow> error + feedback" where
  "generate_step_feedback self overall technical non_technical s actions k =
     (let level = (if overall \<ge> 90 then ''excellent''
                   else if overall \<ge> 75 then ''good''
                   else if overall \<ge> 60 then ''needs_improvement''
                   else ''poor'')
      in bind_err (dict_get (feedback_templates self) level) (\<lambda>pool.
         bind_err (random_choice k pool) (\<lambda>chosen.
           Inr \<lparr>overall_level = level, summary = Some chosen,
                technical_feedback = generate_technical_feedback technical actions,
                non_technical_feedback = generate_non_technical_feedback non_technical,
                recommendations = generate_recommendations overall s\<rparr>)))"

definition identify_improvement_areas :: "real \<Rightarrow> real \<Rightarrow> action list \<Rightarrow> string list" where
  "identify_improvement_areas technical non_technical actions =
     (if technical < 70 then [''Technical Skills''] else [])
     @ (if non_technical < 70 then [''Communication & Decision Making''] else [])
     @ (if list_ex (\<lambda>a. get_default (hesitation_time a) 0 > 30) actions
        then [''Confidence & Decision Speed''] else [])
     @ (if list_ex (\<lambda>a. get_default (accuracy a) 1 < 0.6) actions
        then [''Precision & Accuracy''] else [])"

text \<open>
  \<open>assess_step\<close>. \<open>k\<close> is the value drawn for the feedback summary and \<open>now\<close> the clock
  reading. The step is read with \<open>steps[step_number - 1]\<close>; a state without the
  \<open>simulation\<close> key raises KeyError.
\<close>

definition assess_step ::
  "engine \<Rightarrow> simulation_data \<Rightarrow> int \<Rightarrow> action list \<Rightarrow> int \<Rightarrow> nat \<Rightarrow> string
     \<Rightarrow> error + step_assessment" where
  "assess_step self sd n user_actions t k now =
     bind_err (require_key (simulation sd)) (\<lambda>sc.
       let procedure_type = replace_str '' '' ''_'' (lower (pi_name (procedure_info sc)))
       in bind_err (py_index (steps sc) (n - 1)) (\<lambda>current_step.
         let technical = assess_technical_skills self procedure_type current_step user_actions t
         in bind_err (assess_non_technical_skills current_step user_actions t) (\<lambda>non_technical.
            let overall = technical * 0.7 + non_technical * 0.3
            in bind_err (generate_step_feedback self overall technical non_technical
                           current_step user_actions k) (\<lambda>fb.
                 Inr \<lparr>sa_step_number = n, technical_score = technical,
                      non_technical_score = non_technical, overall_score = overall,
                      sa_feedback = Some fb, time_taken = t, timestamp = now,
                      areas_for_improvement =
                        identify_improvement_areas technical non_technical user_actions\<rparr>))))"

subsection \<open>Final assessment\<close>

text \<open>
  The consistency in the trends is the float \<open>100.0\<close>, the result of \<open>round\<close> on a float,
  or the int \<open>0\<close> that \<open>max(0, x)\<close> returns when \<open>x\<close> is not above it. \<open>py_str\<close> is the
  text an f-string gives: an int in decimal, a float with its fractional digit. It is
  applied to the consistency only, a float with one decimal that is not negative.
\<close>

datatype pynum = PyInt int | PyFloat real

definition py_str :: "pynum \<Rightarrow> string" where
  "py_str v =
     (case v of
        PyInt i \<Rightarrow> int_str i
      | PyFloat x \<Rightarrow> int_str (\<lfloor>x * 10\<rfloor> div 10) @ ''.'' @ int_str (\<lfloor>x * 10\<rfloor> mod 10))"

record trends =
  direction :: string
  consistency :: pynum
  peak_performance_step :: nat
  lowest_performance_step :: nat

record final_feedback =
  performance_level :: string
  summary_message :: string
  trend_analysis :: string
  consistency_note :: string

record learning_plan =
  immediate_focus :: "string list"
  practice_recommendations :: "string list"
  next_steps :: "string list"

record scores =
  technical_average :: real
  non_technical_average :: real
  overall_average :: real
  individual_steps :: "(int \<times> real \<times> int) list"

record performance_metrics =
  total_time_minutes :: real
  complications_handled :: nat
  safety_violations :: nat
  efficiency_rating :: string

record final_assessment =
  fa_simulation_id :: "string option"
  completion_date :: string
  fa_scores :: scores
  fa_performance_metrics :: performance_metrics
  fa_trends :: trends
  fa_final_feedback :: final_feedback
  fa_learning_plan :: learning_plan
  certification_eligible :: bool
  next_difficulty_ready :: bool

text \<open>The dict returned by \<open>generate_final_assessment\<close>: the error marker or the report.\<close>

datatype final_result = ErrorMarker string | FinalAssessment final_assessment

text \<open>\<open>round(x, 1)\<close>: the decimal with one fractional digit nearest to \<open>x\<close>, ties to even.\<close>

definition round1 :: "real \<Rightarrow> real" where
  "round1 x = real_of_int (round_half_even (x * 10)) / 10"

text \<open>\<open>xs.index(v)\<close> for a value that occurs, and \<open>max\<close>/\<open>min\<close> of a non-empty list.\<close>

definition index_of :: "real \<Rightarrow> real list \<Rightarrow> nat" where
  "index_of v xs = length (takeWhile (\<lambda>x. x \<noteq> v) xs)"

definition list_max :: "real list \<Rightarrow> real" where
  "list_max xs = fold max (tl xs) (hd xs)"

definition list_min :: "real list \<Rightarrow> real" where
  "list_min xs = fold min (tl xs) (hd xs)"

definition calculate_consistency :: "real list \<Rightarrow> pynum" where
  "calculate_consistency xs =
     (if length xs < 2 then PyFloat 100
      else (let variance =
                  sum_list (map (\<lambda>x. (x - sum_list xs / real (length xs)) ^ 2) xs)
                    / real (length xs);
                std_dev = sqrt variance
            in if 0 < 100 - std_dev * 2 then PyFloat (round1 (100 - std_dev * 2))
               else PyInt 0))"

definition analyze_performance_trends :: "step_assessment list \<Rightarrow> trends" where
  "analyze_performance_trends assessments =
     (let xs = map overall_score assessments;
          trend =
            (if length xs > 1
             then (let first_half = take (length xs div 2) xs;
                       second_half = drop (length xs div 2) xs;
                       avg_first = sum_list first_half / real (length first_half);
                       avg_second = sum_list second_half / real (length second_half)
                   in if avg_second > avg_first + 5 then ''improving''
                      else if avg_second < avg_first - 5 then ''declining''
                      else ''stable'')
             else ''insufficient_data'')
      in \<lparr>direction = trend, consistency = calculate_consistency xs,
          peak_performance_step = index_of (list_max xs) xs + 1,
          lowest_performance_step = index_of (list_min xs) xs + 1\<rparr>)"

text \<open>
  \<open>_generate_final_feedback\<close> subscripts \<open>simulation\<close> and then \<open>difficulty_level\<close>, at any
  score: a state that lacks either raises KeyError.
\<close>

definition generate_final_feedback ::
  "real \<Rightarrow> trends \<Rightarrow> simulation_data \<Rightarrow> error + final_feedback" where
  "generate_final_feedback overall tr sd =
     bind_err (require_key (simulation sd)) (\<lambda>sc.
       let procedure_name = pi_name (procedure_info sc) in
       bind_err (require_key (difficulty_level sc)) (\<lambda>difficulty.
         let lm = (if overall \<ge> 90
                   then (''Outstanding'',
                         ''Exceptional performance on '' @ procedure_name @ '' at '' @ difficulty
                           @ '' level.'')
                   else if overall \<ge> 75
                   then (''Proficient'',
                         ''Good performance on '' @ procedure_name @ '' with areas for refinement.'')
                   else if overall \<ge> 60
                   then (''Developing'',
                         ''Developing skills demonstrated. Continue practice on '' @ procedure_name
                           @ ''.'')
                   else (''Novice'',
                         ''Foundational skills need development before attempting ''
                           @ procedure_name @ ''.''))
         in Inr \<lparr>performance_level = fst lm, summary_message = snd lm,
                 trend_analysis = ''Performance trend: '' @ direction tr,
                 consistency_note =
                   ''Consistency rating: '' @ py_str (consistency tr) @ ''%''\<rparr>))"

definition generate_learning_plan :: "real \<Rightarrow> real \<Rightarrow> trends \<Rightarrow> learning_plan" where
  "generate_learning_plan technical_avg non_technical_avg tr =
     \<lparr>immediate_focus =
        (if technical_avg < 70 then [''Technical Skill Development''] else [])
        @ (if non_technical_avg < 70 then [''Communication & Decision Making''] else []),
      practice_recommendations =
        (if technical_avg < 70
         then [''Practice basic laparoscopic skills on trainer'', ''Review anatomical landmarks'',
               ''Work on instrument handling precision'']
         else [])
        @ (if non_technical_avg < 70
           then [''Practice team communication scenarios'', ''Review decision-making frameworks'',
                 ''Participate in team-based simulations'']
           else []),
      next_steps =
        (if technical_avg \<ge> 85 \<and> non_technical_avg \<ge> 85
         then [''Ready for increased difficulty level'', ''Consider mentoring junior trainees'']
         else if technical_avg \<ge> 75 \<and> non_technical_avg \<ge> 75
         then [''Practice additional procedure variations'', ''Focus on efficiency improvements'']
         else [''Repeat current difficulty level'', ''Seek additional supervision''])\<rparr>"

definition feedback_summary :: "step_assessment \<Rightarrow> string" where
  "feedback_summary a = (case sa_feedback a of None \<Rightarrow> [] | Some fb \<Rightarrow> get_default (summary fb) [])"

definition count_safety_violations :: "step_assessment list \<Rightarrow> nat" where
  "count_safety_violations assessments =
     length (filter (\<lambda>a. str_contains ''safety'' (lower (feedback_summary a))) assessments)"

text \<open>The float literals \<open>1.2\<close> (the double \<open>0x1.3333333333333p+0\<close>) and \<open>1.5\<close> scale the
  expected duration; an int is compared with a float by value.\<close>

definition float_1_2 :: pyfloat where
  "float_1_2 = Double 5404319552844595 52"

definition calculate_efficiency :: "int \<Rightarrow> simulation_data \<Rightarrow> error + string" where
  "calculate_efficiency total_time sd =
     bind_err (require_key (simulation sd)) (\<lambda>sc.
       let expected_duration = get_default (estimated_duration (procedure_info sc)) 60 * 60
       in Inr (if total_time \<le> expected_duration then ''Excellent''
               else if real_of_int total_time \<le> int_times_float expected_duration float_1_2
               then ''Good''
               else if real_of_int total_time \<le> int_times_float expected_duration float_1_5
               then ''Acceptable''
               else ''Needs Improvement''))"

text \<open>
  \<open>generate_final_assessment\<close>. The feedback is built before the report dict, whose
  entries are evaluated in order. \<open>now\<close> is the clock reading.
\<close>

definition generate_final_assessment ::
  "engine \<Rightarrow> simulation_data \<Rightarrow> string \<Rightarrow> error + final_result" where
  "generate_final_assessment self sd now =
     (let assessments = get_default (step_assessments sd) [] in
      if assessments = [] then Inr (ErrorMarker ''No step assessments found'')
      else
        (let technical_scores = map technical_score assessments;
             non_technical_scores = map non_technical_score assessments;
             overall_scores = map overall_score assessments;
             avg_technical = sum_list technical_scores / real (length technical_scores);
             avg_non_technical =
               sum_list non_technical_scores / real (length non_technical_scores);
             avg_overall = sum_list overall_scores / real (length overall_scores);
             total_time = sum_list (map time_taken assessments);
             tr = analyze_performance_trends assessments
         in bind_err (generate_final_feedback avg_overall tr sd) (\<lambda>ff.
            let plan = generate_learning_plan avg_technical avg_non_technical tr
            in bind_err (calculate_efficiency total_time sd) (\<lambda>rating.
                 Inr (FinalAssessment
                   \<lparr>fa_simulation_id = simulation_id sd,
                    completion_date = now,
                    fa_scores =
                      \<lparr>technical_average = round1 avg_technical,
                       non_technical_average = round1 avg_non_technical,
                       overall_average = round1 avg_overall,
                       individual_steps =
                         map (\<lambda>a. (sa_step_number a, overall_score a, time_taken a))
                           assessments\<rparr>,
                    fa_performance_metrics =
                      \<lparr>total_time_minutes = round1 (nearest_double total_time 60),
                       complications_handled =
                         length (filter (\<lambda>a. str_contains ''complication'' (feedback_summary a))
                                   assessments),
                       safety_violations = count_safety_violations assessments,
                       efficiency_rating = rating\<rparr>,
                    fa_trends = tr,
                    fa_final_feedback = ff,
                    fa_learning_plan = plan,
                    certification_eligible = (avg_overall \<ge> 75),
                    next_difficulty_ready = (avg_overall \<ge> 85)\<rparr>)))))"

section \<open>Inputs and reference definitions for the properties\<close>

text \<open>The duration string \<open>"min-max minutes"\<close> for two natural numbers.\<close>

definition range_str :: "nat \<Rightarrow> nat \<Rightarrow> string" where
  "range_str a b = nat_str a @ ''-'' @ nat_str b @ '' minutes''"

text \<open>
  The simulation state of \<open>test_assessment\<close> in test\_app.py, key for key: a procedure
  name and one step with a title, a description and a duration.
\<close>

definition test_data :: simulation_data where
  "test_data =
     \<lparr>simulation =
        Some \<lparr>procedure_info =
                \<lparr>pi_name = ''Laparoscopic Cholecystectomy'', pi_category = None,
                 estimated_duration = None\<rparr>,
              steps =
                [\<lparr>step_number = None, title = ''Patient Preparation'',
                  description = ''Position patient supine, prep and drape surgical site'',
                  duration = Some ''10-15 minutes'', critical_points = None,
                  instruments = None, guidance_level = None, hints = None,
                  decision_points = None, time_pressure = None, learning_focus = None,
                  assessment_weight = None, step_complication = None\<rparr>],
              complications = None, learning_objectives = None, difficulty_level = None,
              created_at = None\<rparr>,
      step_assessments = None, simulation_id = None\<rparr>"

text \<open>One outcome of the random draws of \<open>generate_scenario\<close>.\<close>

definition sample_draws :: draws where
  "sample_draws = \<lparr>r_random = 0.1, r_type = 0, r_severity = 1, r_location = 2, r_trigger = 3\<rparr>"

text \<open>Number of the three communication criteria that one action meets.\<close>

definition criteria_met :: "action \<Rightarrow> nat" where
  "criteria_met a =
     (if get_default (clarity a) 0 > 0.8 then 1 else 0)
     + (if get_default (timing a) 0 > 0.8 then 1 else 0)
     + (if get_default (professionalism a) 0 > 0.8 then 1 else 0)"

text \<open>
  The communication sub-score as claim C3 words it: 25 points for each criterion that at
  least one communication action meets.
\<close>

definition communication_per_criterion :: "action list \<Rightarrow> real" where
  "communication_per_criterion actions =
     (let cs = filter (\<lambda>a. a_type a = Some ''communication'') actions in
      if cs = [] then 50
      else min 100
             (25 * ((if list_ex (\<lambda>a. get_default (clarity a) 0 > 0.8) cs then 1 else 0)
                    + (if list_ex (\<lambda>a. get_default (timing a) 0 > 0.8) cs then 1 else 0)
                    + (if list_ex (\<lambda>a. get_default (professionalism a) 0 > 0.8) cs then 1 else 0))))"

text \<open>A communication action that is clear, with no other quality field.\<close>

definition clear_message :: action where
  "clear_message =
     \<lparr>a_type = Some ''communication'', skill_category = None, accuracy = None,
      clarity = Some 0.9, timing = None, professionalism = None, outcome = None,
      hesitation_time = None, expected_time = None\<rparr>"

text \<open>A step has the duration range \<open>(a, b)\<close>: its duration string is \<open>"a-b minutes"\<close>.\<close>

definition has_range :: "step \<Rightarrow> nat \<times> nat \<Rightarrow> bool" where
  "has_range s r = (duration s = Some (range_str (fst r) (snd r)))"

text \<open>The sum of the midpoints of duration ranges.\<close>

definition midpoint_sum :: "(nat \<times> nat) list \<Rightarrow> real" where
  "midpoint_sum rs = sum_list (map (\<lambda>r. (real (fst r) + real (snd r)) / 2) rs)"

text \<open>A step that lasts 13 to 14 minutes.\<close>

definition short_step :: step where
  "short_step = template_step 1 ''Closure'' ''Close incisions'' ''13-14 minutes'' [] []"

text \<open>Two recorded step assessments, with overall scores 80 and 74.\<close>

definition sample_assessment :: step_assessment where
  "sample_assessment =
     \<lparr>sa_step_number = 1, technical_score = 80, non_technical_score = 80, overall_score = 80,
      sa_feedback = None, time_taken = 700, timestamp = [], areas_for_improvement = []\<rparr>"

definition second_assessment :: step_assessment where
  "second_assessment =
     \<lparr>sa_step_number = 2, technical_score = 74, non_technical_score = 74, overall_score = 74,
      sa_feedback = None, time_taken = 560, timestamp = [], areas_for_improvement = []\<rparr>"

text \<open>An accurate trocar-placement action, with no other field.\<close>

definition trocar_action :: action where
  "trocar_action =
     \<lparr>a_type = None, skill_category = Some ''trocar_placement'', accuracy = Some 0.9,
      clarity = None, timing = None, professionalism = None, outcome = None,
      hesitation_time = None, expected_time = None\<rparr>"

text \<open>The cholecystectomy step "Trocar Placement" as the catalog has it.\<close>

definition trocar_step :: step where
  "trocar_step =
     template_step 2 ''Trocar Placement'' ''Create pneumoperitoneum and insert trocars''
       ''10-15 minutes''
       [''Safe entry technique'', ''Proper CO2 insufflation'', ''Trocar positioning'']
       [''veress needle'', ''trocars'', ''CO2 insufflator'']"

text \<open>A simulation state of a cholecystectomy whose second step is that step.\<close>

definition chole_state :: simulation_data where
  "chole_state =
     \<lparr>simulation =
        Some \<lparr>procedure_info =
                \<lparr>pi_name = ''Laparoscopic Cholecystectomy'',
                 pi_category = Some ''General Surgery'', estimated_duration = Some 82\<rparr>,
              steps =
                [template_step 1 ''Patient Preparation''
                   ''Position patient supine, prep and drape surgical site'' ''10-15 minutes''
                   [''Proper patient positioning'', ''Sterile field maintenance'',
                    ''Antibiotic prophylaxis'']
                   [''surgical drapes'', ''prep solution'', ''positioning aids''],
                 trocar_step],
              complications = Some [], learning_objectives = Some [],
              difficulty_level = Some ''standard'', created_at = Some []\<rparr>,
      step_assessments = None, simulation_id = None\<rparr>"

text \<open>The duration ranges of the seventeen catalog steps, in store order.\<close>

definition catalog_ranges :: "(nat \<times> nat) list" where
  "catalog_ranges =
     [(10, 15), (10, 15), (5, 10), (15, 20), (15, 25), (10, 15),
      (10, 15), (5, 10), (10, 15), (5, 10), (5, 10),
      (10, 15), (10, 15), (15, 20), (20, 30), (15, 25), (10, 15)]"

section \<open>Decimal strings and duration strings\<close>

lemma digit_char_in: "digit_char d \<in> set ''0123456789''"
proof -
  define m where "m = d mod 10"
  have "m < 10" by (simp add: m_def)
  then have "m \<in> {0,1,2,3,4,5,6,7,8,9}" by auto
  then show ?thesis unfolding digit_char_def m_def[symmetric] by auto
qed

lemma nat_str_digits: "set (nat_str n) \<subseteq> set ''0123456789''"
proof (induction n rule: nat_str.induct)
  case (1 n)
  show ?case
  proof (cases "n < 10")
    case True
    then show ?thesis using digit_char_in[of n] by (subst nat_str.simps) simp
  next
    case False
    then show ?thesis using 1 digit_char_in[of "n mod 10"] by (subst nat_str.simps) simp
  qed
qed

lemma nat_str_nonempty: "nat_str n \<noteq> []"
  by (subst nat_str.simps) simp

lemma digit_val_digit_char: "d < 10 \<Longrightarrow> digit_val (digit_char d) = Some d"
proof -
  assume "d < 10"
  then have "d \<in> {0,1,2,3,4,5,6,7,8,9}" by auto
  then show ?thesis by (auto simp: digit_char_def digit_val_def)
qed

lemma digits_value_append:
  "digits_value acc (xs @ [c]) =
     (case digits_value acc xs of None \<Rightarrow> None
      | Some v \<Rightarrow> (case digit_val c of None \<Rightarrow> None | Some d \<Rightarrow> Some (v * 10 + d)))"
  by (induction xs arbitrary: acc) (auto split: option.splits)

lemma digits_value_nat_str: "digits_value 0 (nat_str n) = Some n"
proof (induction n rule: nat_str.induct)
  case (1 n)
  show ?case
  proof (cases "n < 10")
    case True
    then show ?thesis by (subst nat_str.simps) (simp add: digit_val_digit_char)
  next
    case False
    then have "digits_value 0 (nat_str (n div 10)) = Some (n div 10)" using 1 by simp
    then show ?thesis using False
      by (subst nat_str.simps) (simp add: digits_value_append digit_val_digit_char)
  qed
qed

lemma digit_not_space: "c \<in> set ''0123456789'' \<Longrightarrow> \<not> is_space c"
  by (auto simp: is_space_def)

lemma strip_id: "xs \<noteq> [] \<Longrightarrow> \<not> is_space (hd xs) \<Longrightarrow> \<not> is_space (last xs) \<Longrightarrow> strip xs = xs"
proof -
  assume a: "xs \<noteq> []" "\<not> is_space (hd xs)" "\<not> is_space (last xs)"
  then have "dropWhile is_space xs = xs" by (cases xs) auto
  moreover have "dropWhile is_space (rev xs) = rev xs"
    using a by (cases "rev xs") (auto simp: hd_rev)
  ultimately show ?thesis by (simp add: strip_def)
qed

lemma py_int_nat_str: "py_int (nat_str n) = Inr (int n)"
proof -
  have ne: "nat_str n \<noteq> []" by (rule nat_str_nonempty)
  have hd_in: "hd (nat_str n) \<in> set ''0123456789''"
    using ne nat_str_digits[of n] hd_in_set by blast
  have last_in: "last (nat_str n) \<in> set ''0123456789''"
    using ne nat_str_digits[of n] last_in_set by blast
  have s: "strip (nat_str n) = nat_str n"
    using ne hd_in last_in by (intro strip_id digit_not_space) auto
  have nosign: "hd (nat_str n) \<noteq> CHR ''-''" "hd (nat_str n) \<noteq> CHR ''+''"
    using hd_in by auto
  show ?thesis
    by (simp add: py_int_def s ne nosign digits_value_nat_str)
qed

lemma replace_no_space:
  "CHR '' '' \<notin> set xs \<Longrightarrow> replace_str (CHR '' '' # old) new (xs @ ys) = xs @ replace_str (CHR '' '' # old) new ys"
  by (induction xs) auto

lemma replace_minutes: "CHR '' '' \<notin> set xs \<Longrightarrow> replace_str '' minutes'' [] (xs @ '' minutes'') = xs"
  by (simp add: replace_no_space)

lemma split_no_sep: "sep \<notin> set xs \<Longrightarrow> split_on sep xs = [xs]"
  by (induction xs) auto

lemma split_at_sep: "sep \<notin> set xs \<Longrightarrow> split_on sep (xs @ sep # ys) = xs # split_on sep ys"
  by (induction xs) auto

lemma duration_parts:
  "split_on CHR ''-'' (replace_str '' minutes'' [] (range_str a b)) = [nat_str a, nat_str b]"
proof -
  have a: "CHR '' '' \<notin> set (nat_str a)" "CHR ''-'' \<notin> set (nat_str a)"
    using nat_str_digits[of a] by auto
  have b: "CHR '' '' \<notin> set (nat_str b)" "CHR ''-'' \<notin> set (nat_str b)"
    using nat_str_digits[of b] by auto
  have "replace_str '' minutes'' [] ((nat_str a @ ''-'' @ nat_str b) @ '' minutes'')
          = nat_str a @ ''-'' @ nat_str b"
    using a b by (intro replace_minutes) auto
  then show ?thesis using a b
    by (simp add: range_str_def split_at_sep split_no_sep)
qed

lemma range_str_10_15: "''10-15 minutes'' = range_str 10 15"
  by (simp add: range_str_def nat_str.simps digit_char_def)

section \<open>Doubles\<close>

lemma bit_length_bounds: "0 < n \<Longrightarrow> 2 ^ (bit_length n - 1) \<le> n \<and> n < 2 ^ bit_length n"
proof (induction n rule: bit_length.induct)
  case (1 n)
  show ?case
  proof (cases "n div 2 \<le> 0")
    case True
    then have "n = 1" using 1(2) by auto
    then show ?thesis by (simp add: bit_length.simps)
  next
    case False
    then have ih: "2 ^ (bit_length (n div 2) - 1) \<le> n div 2" "n div 2 < 2 ^ bit_length (n div 2)"
      using 1 by auto
    have bl: "bit_length n = Suc (bit_length (n div 2))" using 1(2) by (subst bit_length.simps) simp
    have pos: "0 < bit_length (n div 2)" using False by (subst bit_length.simps) simp
    define K :: int where "K = 2 ^ (bit_length (n div 2) - 1)"
    have p1: "(2::int) ^ bit_length (n div 2) = 2 * K"
      using pos unfolding K_def by (cases "bit_length (n div 2)") simp_all
    have p2: "(2::int) ^ (bit_length n - 1) = 2 * K" "(2::int) ^ bit_length n = 4 * K"
      using p1 by (simp_all add: bl)
    have "2 * (n div 2) \<le> n" "n < 2 * (n div 2) + 2" by linarith+
    then show ?thesis using ih unfolding p2 p1 K_def[symmetric] by linarith
  qed
qed

lemma floor_log2_bounds:
  assumes "0 < p" "0 < q"
  shows "power_int 2 (floor_log2 p q) \<le> real_of_int p / real_of_int q"
    and "real_of_int p / real_of_int q < power_int 2 (floor_log2 p q + 1)"
proof -
  define e0 where "e0 = int (bit_length p) - int (bit_length q)"
  have bp: "2 ^ (bit_length p - 1) \<le> p" "p < 2 ^ bit_length p" using bit_length_bounds[OF assms(1)] by auto
  have bq: "2 ^ (bit_length q - 1) \<le> q" "q < 2 ^ bit_length q" using bit_length_bounds[OF assms(2)] by auto
  have lp: "0 < bit_length p" using assms(1) by (subst bit_length.simps) simp
  have lq: "0 < bit_length q" using assms(2) by (subst bit_length.simps) simp
  have rp: "(2::real) ^ (bit_length p - 1) \<le> real_of_int p" "real_of_int p < 2 ^ bit_length p"
  proof -
    have "real_of_int (2 ^ (bit_length p - 1)) \<le> real_of_int p" using bp(1) by (simp only: of_int_le_iff)
    then show "(2::real) ^ (bit_length p - 1) \<le> real_of_int p" by simp
    have "real_of_int p < real_of_int (2 ^ bit_length p)" using bp(2) by (simp only: of_int_less_iff)
    then show "real_of_int p < 2 ^ bit_length p" by simp
  qed
  have rq: "(2::real) ^ (bit_length q - 1) \<le> real_of_int q" "real_of_int q < 2 ^ bit_length q"
  proof -
    have "real_of_int (2 ^ (bit_length q - 1)) \<le> real_of_int q" using bq(1) by (simp only: of_int_le_iff)
    then show "(2::real) ^ (bit_length q - 1) \<le> real_of_int q" by simp
    have "real_of_int q < real_of_int (2 ^ bit_length q)" using bq(2) by (simp only: of_int_less_iff)
    then show "real_of_int q < 2 ^ bit_length q" by simp
  qed
  have qpos: "0 < real_of_int q" using assms by simp
  have low: "power_int 2 (e0 - 1) * real_of_int q < real_of_int p"
  proof -
    have "power_int 2 (e0 - 1) * real_of_int q < power_int 2 (e0 - 1) * 2 ^ bit_length q"
      using rq(2) by simp
    also have "\<dots> = power_int (2::real) (e0 - 1) * power_int 2 (int (bit_length q))" by simp
    also have "\<dots> = power_int (2::real) (e0 - 1 + int (bit_length q))"
      by (simp add: power_int_add)
    also have "e0 - 1 + int (bit_length q) = int (bit_length p - 1)" using lp by (simp add: e0_def)
    also have "power_int (2::real) (int (bit_length p - 1)) = 2 ^ (bit_length p - 1)" by simp
    also have "\<dots> \<le> real_of_int p" by (rule rp(1))
    finally show ?thesis .
  qed
  have up: "real_of_int p < power_int 2 (e0 + 1) * real_of_int q"
  proof -
    have "real_of_int p < 2 ^ bit_length p" by (rule rp(2))
    also have "\<dots> = power_int (2::real) (int (bit_length p))" by simp
    also have "int (bit_length p) = (e0 + 1) + int (bit_length q - 1)" using lq by (simp add: e0_def)
    also have "power_int (2::real) ((e0 + 1) + int (bit_length q - 1))
                 = power_int 2 (e0 + 1) * 2 ^ (bit_length q - 1)"
      by (simp add: power_int_add)
    also have "\<dots> \<le> power_int 2 (e0 + 1) * real_of_int q" using rq(1) by simp
    finally show ?thesis .
  qed
  show "power_int 2 (floor_log2 p q) \<le> real_of_int p / real_of_int q"
    using low qpos unfolding floor_log2_def e0_def[symmetric] Let_def
    by (auto simp: field_simps)
  show "real_of_int p / real_of_int q < power_int 2 (floor_log2 p q + 1)"
    using up qpos unfolding floor_log2_def e0_def[symmetric] Let_def
    by (auto simp: field_simps)
qed

lemma round_half_even_ge_floor: "\<lfloor>y\<rfloor> \<le> round_half_even y"
  by (simp add: round_half_even_def Let_def)

lemma nearest_double_ge_pow2:
  assumes "0 < p" "0 < q" "power_int 2 j \<le> real_of_int p / real_of_int q"
  shows "power_int 2 j \<le> nearest_double p q"
proof -
  define e where "e = floor_log2 \<bar>p\<bar> q"
  define x where "x = real_of_int p / real_of_int q"
  have np: "0 < \<bar>p\<bar>" "0 < q" using assms by auto
  have xe: "power_int 2 e \<le> x" "x < power_int 2 (e + 1)"
    using floor_log2_bounds[OF np] assms(1,2) unfolding e_def x_def by auto
  have "power_int (2::real) j < power_int 2 (e + 1)" using assms(3) xe(2) unfolding x_def by simp
  have je: "j \<le> e"
  proof (rule ccontr)
    assume "\<not> j \<le> e"
    then have "e + 1 \<le> j" by simp
    then have "power_int (2::real) (e + 1) \<le> power_int 2 j" by (intro power_int_increasing) auto
    then show False using \<open>power_int (2::real) j < power_int 2 (e + 1)\<close> by simp
  qed
  have "(2::real) ^ 52 = power_int 2 e * power_int 2 (52 - e)"
    by (simp flip: power_int_add)
  also have "\<dots> \<le> x * power_int 2 (52 - e)" using xe(1) by (intro mult_right_mono) auto
  finally have "(2::real) ^ 52 \<le> x * power_int 2 (52 - e)" .
  then have "(2::int) ^ 52 \<le> \<lfloor>x * power_int 2 (52 - e)\<rfloor>" by (simp add: le_floor_iff)
  then have m: "(2::int) ^ 52 \<le> round_half_even (x * power_int 2 (52 - e))"
    using round_half_even_ge_floor[of "x * power_int 2 (52 - e)"] by linarith
  have nd: "nearest_double p q
              = real_of_int (round_half_even (x * power_int 2 (52 - e))) * power_int 2 (e - 52)"
    using assms(1) by (simp add: nearest_double_def e_def x_def Let_def)
  have "power_int (2::real) j \<le> power_int 2 e" using je by (intro power_int_increasing) auto
  also have "\<dots> = 2 ^ 52 * power_int 2 (e - 52)"
  proof -
    have "power_int (2::real) (int 52 + (e - 52)) = power_int 2 (int 52) * power_int 2 (e - 52)"
      by (rule power_int_add) simp
    then show ?thesis by (simp only: power_int_of_nat) simp
  qed
  also have "\<dots> \<le> real_of_int (round_half_even (x * power_int 2 (52 - e))) * power_int 2 (e - 52)"
  proof (intro mult_right_mono)
    have "real_of_int (2 ^ 52) \<le> real_of_int (round_half_even (x * power_int 2 (52 - e)))"
      using m by (simp only: of_int_le_iff)
    then show "(2::real) ^ 52 \<le> real_of_int (round_half_even (x * power_int 2 (52 - e)))" by simp
  qed auto
  finally show ?thesis unfolding nd .
qed


lemma nearest_double_nonneg: "0 \<le> p \<Longrightarrow> 0 < q \<Longrightarrow> 0 \<le> nearest_double p q"
proof -
  assume p: "0 \<le> p" and q: "0 < q"
  show ?thesis
  proof (cases "p = 0")
    case True
    then show ?thesis by (simp add: nearest_double_def)
  next
    case False
    define e where "e = floor_log2 \<bar>p\<bar> q"
    define y where "y = real_of_int \<bar>p\<bar> / real_of_int q * power_int 2 (52 - e)"
    have "0 \<le> y" using p q by (simp add: y_def)
    then have "0 \<le> \<lfloor>y\<rfloor>" by simp
    then have "0 \<le> round_half_even y" using round_half_even_ge_floor[of y] by linarith
    then have "0 \<le> real_of_int (round_half_even y) * power_int 2 (e - 52)" by simp
    moreover have "nearest_double p q = real_of_int (round_half_even y) * power_int 2 (e - 52)"
      using False p unfolding nearest_double_def Let_def y_def e_def by simp
    ultimately show ?thesis by simp
  qed
qed

lemma int_times_float_nonneg:
  assumes "0 \<le> n" "0 \<le> m"
  shows "0 \<le> int_times_float n (Double m k)"
proof -
  have "0 \<le> nearest_double n 1" using assms(1) by (intro nearest_double_nonneg) simp_all
  then have "0 \<le> \<lfloor>nearest_double n 1\<rfloor>" by simp
  then have "0 \<le> \<lfloor>nearest_double n 1\<rfloor> * m" using assms(2) by simp
  then show ?thesis
    unfolding int_times_float_def by (simp add: nearest_double_nonneg)
qed

lemma int_times_float_ge_1:
  assumes "2 \<le> n" "2 ^ k \<le> 2 * m"
  shows "1 \<le> int_times_float n (Double m k)"
proof -
  define N where "N = \<lfloor>nearest_double n 1\<rfloor>"
  have "power_int 2 1 \<le> real_of_int n / real_of_int 1" using assms(1) by simp
  then have "power_int 2 1 \<le> nearest_double n 1"
    using assms(1) by (intro nearest_double_ge_pow2) simp_all
  then have "2 \<le> nearest_double n 1" by simp
  then have N: "2 \<le> N" unfolding N_def by linarith
  have m: "0 < m"
  proof (rule ccontr)
    assume "\<not> 0 < m"
    then have "2 * m \<le> 0" by simp
    moreover have "(0::int) < 2 ^ k" by simp
    ultimately show False using assms(2) by linarith
  qed
  have "2 * m \<le> N * m" using N m by simp
  then have le: "2 ^ k \<le> N * m" using assms(2) by linarith
  then have pos: "0 < N * m" using zero_less_power[of "2::int" k] by linarith
  have "real_of_int (2 ^ k) \<le> real_of_int (N * m)" using le by (simp only: of_int_le_iff)
  then have "power_int 2 0 \<le> real_of_int (N * m) / real_of_int (2 ^ k)"
    by (simp add: le_divide_eq)
  then have "power_int 2 0 \<le> nearest_double (N * m) (2 ^ k)"
    using pos by (intro nearest_double_ge_pow2) simp_all
  then show ?thesis unfolding int_times_float_def N_def by simp
qed

lemma scale_1_5_pos: "2 \<le> n \<Longrightarrow> 1 \<le> int_times_float n float_1_5"
  unfolding float_1_5_def by (rule int_times_float_ge_1) simp_all

lemma scale_0_7_pos: "2 \<le> n \<Longrightarrow> 1 \<le> int_times_float n float_0_7"
  unfolding float_0_7_def by (rule int_times_float_ge_1) simp_all

section \<open>Durations under customization\<close>

lemma trunc_nonneg: "0 \<le> x \<Longrightarrow> 0 \<le> trunc x"
  by (simp add: trunc_def)

lemma int_str_nonneg: "0 \<le> i \<Longrightarrow> int_str i = nat_str (nat i)"
  by (simp add: int_str_def)

lemma py_index_parts:
  "py_index [x, y] 0 = Inr x" "py_index [x, y] 1 = Inr y"
  by (simp_all add: py_index_def)

lemma extend_duration_range:
  assumes "0 \<le> m"
  shows "extend_duration (range_str a b) (Double m k)
           = Inr (range_str (nat (trunc (int_times_float (int a) (Double m k))))
                    (nat (trunc (int_times_float (int b) (Double m k)))))"
proof -
  have "0 \<le> trunc (int_times_float (int a) (Double m k))"
       "0 \<le> trunc (int_times_float (int b) (Double m k))"
    using assms by (simp_all add: trunc_nonneg int_times_float_nonneg)
  then show ?thesis
    unfolding extend_duration_def duration_parts
    by (simp add: py_index_parts py_int_nat_str bind_err_def int_str_nonneg range_str_def)
qed

lemma reduce_duration_range:
  assumes "0 \<le> m"
  shows "reduce_duration (range_str a b) (Double m k)
           = Inr (range_str (nat (trunc (int_times_float (int a) (Double m k))))
                    (nat (trunc (int_times_float (int b) (Double m k)))))"
proof -
  have "0 \<le> trunc (int_times_float (int a) (Double m k))"
       "0 \<le> trunc (int_times_float (int b) (Double m k))"
    using assms by (simp_all add: trunc_nonneg int_times_float_nonneg)
  then show ?thesis
    unfolding reduce_duration_def duration_parts
    by (simp add: py_index_parts py_int_nat_str bind_err_def int_str_nonneg range_str_def)
qed

lemma time_management_returns:
  assumes "duration s = Some (range_str a b)" "0 < a" "0 < b"
  shows "\<exists>v. assess_time_management t s = Inr v \<and> 30 \<le> v \<and> v \<le> 100"
proof -
  have *: "assess_time_management t s =
      (if int a * 60 \<le> t \<and> t \<le> int b * 60 then Inr 100
       else if t < int a * 60 then
          Inr (max 70 (100 - real_of_int (int a * 60 - t) / real_of_int (int a * 60) * 30))
       else Inr (max 30 (100 - real_of_int (t - int b * 60) / real_of_int (int b * 60) * 50)))"
    using assms
    by (simp add: assess_time_management_def get_default_def duration_parts py_index_parts
        py_int_nat_str bind_err_def)
  have le1: "t < int a * 60 \<Longrightarrow> 100 - real_of_int (int a * 60 - t) / real_of_int (int a * 60) * 30 \<le> 100"
    using assms by (simp add: divide_nonneg_pos)
  have le2: "\<not> t \<le> int b * 60 \<Longrightarrow> 100 - real_of_int (t - int b * 60) / real_of_int (int b * 60) * 50 \<le> 100"
    using assms by (simp add: divide_nonneg_pos)
  show ?thesis
    unfolding * using le1 le2 by (auto simp: max_def)
qed

lemma enhance_objectives_duration: "duration (enhance_objectives objs s) = duration s"
  by (induction objs arbitrary: s) auto

lemma enhance_step_duration: "duration (enhance_step objs s) = duration s"
  by (simp add: enhance_step_def enhance_objectives_duration)

lemma trunc_scale_pos:
  assumes "2 \<le> a"
  shows "0 < nat (trunc (int_times_float (int a) float_1_5))"
        "0 < nat (trunc (int_times_float (int a) float_0_7))"
proof -
  have "1 \<le> int_times_float (int a) float_1_5" "1 \<le> int_times_float (int a) float_0_7"
    using assms by (simp_all add: scale_1_5_pos scale_0_7_pos)
  then have "1 \<le> \<lfloor>int_times_float (int a) float_1_5\<rfloor>"
            "1 \<le> \<lfloor>int_times_float (int a) float_0_7\<rfloor>"
    by linarith+
  moreover have "0 \<le> int_times_float (int a) float_1_5" "0 \<le> int_times_float (int a) float_0_7"
    unfolding float_1_5_def float_0_7_def by (simp_all add: int_times_float_nonneg)
  ultimately show "0 < nat (trunc (int_times_float (int a) float_1_5))"
                  "0 < nat (trunc (int_times_float (int a) float_0_7))"
    by (simp_all add: trunc_def)
qed

lemma customize_step_duration:
  assumes "customize_step d s = Inr s'" "duration s = Some (range_str a b)" "2 \<le> a" "2 \<le> b"
  shows "\<exists>a' b'. duration s' = Some (range_str a' b') \<and> 0 < a' \<and> 0 < b'"
proof -
  consider "d = ''beginner''" | "d = ''intermediate''" | "d = ''advanced''" | "d = ''expert''"
    | "d \<noteq> ''beginner''" "d \<noteq> ''intermediate''" "d \<noteq> ''advanced''" "d \<noteq> ''expert''"
    by blast
  then show ?thesis
  proof cases
    case 1
    have "extend_duration (range_str a b) float_1_5
            = Inr (range_str (nat (trunc (int_times_float (int a) float_1_5)))
                     (nat (trunc (int_times_float (int b) float_1_5))))"
      unfolding float_1_5_def by (rule extend_duration_range) simp
    with 1 have "duration s' = Some (range_str (nat (trunc (int_times_float (int a) float_1_5)))
                                 (nat (trunc (int_times_float (int b) float_1_5))))"
      using assms(1,2)
      by (auto simp: customize_step_def require_key_def bind_err_def Let_def)
    then show ?thesis using trunc_scale_pos(1)[OF assms(3)] trunc_scale_pos(1)[OF assms(4)] by blast
  next
    case 2
    then have "duration s' = duration s" using assms(1) by (auto simp: customize_step_def Let_def)
    then show ?thesis using assms by (intro exI[of _ a] exI[of _ b]) simp
  next
    case 3
    then show ?thesis using assms(1) by (simp add: customize_step_def)
  next
    case 4
    have "reduce_duration (range_str a b) float_0_7
            = Inr (range_str (nat (trunc (int_times_float (int a) float_0_7)))
                     (nat (trunc (int_times_float (int b) float_0_7))))"
      unfolding float_0_7_def by (rule reduce_duration_range) simp
    with 4 have "duration s' = Some (range_str (nat (trunc (int_times_float (int a) float_0_7)))
                                 (nat (trunc (int_times_float (int b) float_0_7))))"
      using assms(1,2)
      by (auto simp: customize_step_def require_key_def bind_err_def Let_def)
    then show ?thesis using trunc_scale_pos(2)[OF assms(3)] trunc_scale_pos(2)[OF assms(4)] by blast
  next
    case 5
    then have "s' = s" using assms(1) by (simp add: customize_step_def)
    then show ?thesis using assms by (intro exI[of _ a] exI[of _ b]) simp
  qed
qed

section \<open>The object store under customization\<close>

lemma bind_err_Inr_iff:
  "bind_err m f = Inr y \<longleftrightarrow> (\<exists>x. m = Inr x \<and> f x = Inr y)"
  by (cases m) (simp_all add: bind_err_def)

lemma map_err_length: "map_err f xs = Inr ys \<Longrightarrow> length ys = length xs"
  by (induction xs arbitrary: ys) (auto simp: bind_err_Inr_iff)

lemma map_err_all2: "map_err f xs = Inr ys \<Longrightarrow> list_all2 (\<lambda>x y. f x = Inr y) xs ys"
  by (induction xs arbitrary: ys) (auto simp: bind_err_Inr_iff)



lemma fresh_refs_Cons:
  "[length pre ..< length pre + length (x # xs)]
     = length pre # [length (pre @ [y]) ..< length (pre @ [y]) + length xs]"
  by (subst upt_rec) simp

lemma customize_loop_fresh:
  "map_err (customize_step d) todo = Inr ss \<Longrightarrow>
   customize_loop d [length pre ..< length pre + length todo] (pre @ todo) = (pre @ ss, None)"
proof (induction todo arbitrary: pre ss)
  case Nil
  then show ?case by simp
next
  case (Cons x xs)
  from Cons.prems obtain x' ss' where x': "customize_step d x = Inr x'"
    and ss': "map_err (customize_step d) xs = Inr ss'" and ss: "ss = x' # ss'"
    by (auto simp: bind_err_Inr_iff)
  define R where "R = [length (pre @ [x']) ..< length (pre @ [x']) + length xs]"
  have refs: "[length pre ..< length pre + length (x # xs)] = length pre # R"
    unfolding R_def by (rule fresh_refs_Cons)
  have upd: "(pre @ x # xs)[length pre := x'] = (pre @ [x']) @ xs" by simp
  have "customize_loop d (length pre # R) (pre @ x # xs) = customize_loop d R ((pre @ [x']) @ xs)"
    using x' by (simp only: customize_loop.simps nth_append_length sum.case upd)
  also have "\<dots> = ((pre @ [x']) @ ss', None)"
    unfolding R_def by (rule Cons.IH[OF ss'])
  finally show ?case unfolding refs ss by simp
qed

lemma customize_loop_error:
  "map_err (customize_step d) todo = Inl e \<Longrightarrow>
   snd (customize_loop d [length pre ..< length pre + length todo] (pre @ todo)) = Some e"
proof (induction todo arbitrary: pre)
  case Nil
  then show ?case by simp
next
  case (Cons x xs)
  show ?case
  proof (cases "customize_step d x")
    case (Inl e')
    then have "e' = e" using Cons.prems by (simp add: bind_err_def)
    then show ?thesis using Inl
      by (subst fresh_refs_Cons[where y = x]) (simp only: customize_loop.simps nth_append_length sum.case snd_conv)
  next
    case (Inr x')
    then have rest: "map_err (customize_step d) xs = Inl e"
      using Cons.prems by (auto simp: bind_err_def split: sum.splits)
    define R where "R = [length (pre @ [x']) ..< length (pre @ [x']) + length xs]"
    have refs: "[length pre ..< length pre + length (x # xs)] = length pre # R"
      unfolding R_def by (rule fresh_refs_Cons)
    have upd: "(pre @ x # xs)[length pre := x'] = (pre @ [x']) @ xs" by simp
    have "customize_loop d (length pre # R) (pre @ x # xs) = customize_loop d R ((pre @ [x']) @ xs)"
      using Inr by (simp only: customize_loop.simps nth_append_length sum.case upd)
    then show ?thesis unfolding refs using Cons.IH[OF rest, of "pre @ [x']"] R_def by simp
  qed
qed

lemma enhance_loop_fresh:
  "enhance_steps_for_objectives (pre @ todo) [length pre ..< length pre + length todo] objs
     = pre @ map (enhance_step objs) todo"
proof (induction todo arbitrary: pre)
  case Nil
  then show ?case by simp
next
  case (Cons x xs)
  define x' where "x' = enhance_step objs x"
  define R where "R = [length (pre @ [x']) ..< length (pre @ [x']) + length xs]"
  have refs: "[length pre ..< length pre + length (x # xs)] = length pre # R"
    unfolding R_def by (rule fresh_refs_Cons)
  have upd: "(pre @ x # xs)[length pre := x'] = (pre @ [x']) @ xs" by simp
  have "enhance_steps_for_objectives (pre @ x # xs) (length pre # R) objs
          = enhance_steps_for_objectives ((pre @ [x']) @ xs) R objs"
    by (simp only: enhance_steps_for_objectives.simps nth_append_length upd x'_def[symmetric])
  also have "\<dots> = (pre @ [x']) @ map (enhance_step objs) xs"
    unfolding R_def by (rule Cons.IH)
  finally show ?case unfolding refs x'_def by simp
qed

lemma read_fresh: "map (\<lambda>r. (pre @ ys) ! r) [length pre ..< length pre + length ys] = ys"
  by (rule nth_equalityI) (simp_all add: nth_append)

lemma customize_steps_Inr:
  assumes "map_err (customize_step d) (map (\<lambda>r. st ! r) refs) = Inr ss"
  shows "customize_steps_for_difficulty st refs d
           = (st @ ss, Inr [length st ..< length st + length ss])"
proof -
  have len: "length ss = length refs" using map_err_length[OF assms] by simp
  have "customize_loop d [length st ..< length st + length (map (\<lambda>r. st ! r) refs)]
          (st @ map (\<lambda>r. st ! r) refs) = (st @ ss, None)"
    by (rule customize_loop_fresh[OF assms])
  then show ?thesis
    by (simp add: customize_steps_for_difficulty_def deep_copy_def len)
qed

lemma customize_steps_Inl:
  assumes "map_err (customize_step d) (map (\<lambda>r. st ! r) refs) = Inl e"
  shows "snd (customize_steps_for_difficulty st refs d) = Inl e"
proof -
  have "snd (customize_loop d [length st ..< length st + length (map (\<lambda>r. st ! r) refs)]
          (st @ map (\<lambda>r. st ! r) refs)) = Some e"
    by (rule customize_loop_error[OF assms])
  then show ?thesis
    by (auto simp: customize_steps_for_difficulty_def deep_copy_def split: prod.splits option.splits)
qed


lemma generate_scenario_Inr:
  assumes "generate_scenario self st p d pat objs en rng now = (st', Inr sc)"
  shows "\<exists>tmpl ss est cs.
           map_of (procedure_templates self) p = Some tmpl
         \<and> map_err (customize_step d) (map (\<lambda>r. st ! r) (tmpl_steps tmpl)) = Inr ss
         \<and> steps sc = map (enhance_step objs) ss
         \<and> st' = st @ map (enhance_step objs) ss
         \<and> pi_name (procedure_info sc) = tmpl_name tmpl
         \<and> complications sc = Some cs
         \<and> (if en then generate_complications self p d rng else Inr []) = Inr cs
         \<and> difficulty_level sc = Some d
         \<and> calculate_duration (steps sc) d = Inr est
         \<and> estimated_duration (procedure_info sc) = Some est"
proof (cases "map_of (procedure_templates self) p")
  case None
  then show ?thesis using assms by (simp add: generate_scenario_def)
next
  case (Some tmpl)
  show ?thesis
  proof (cases "map_err (customize_step d) (map (\<lambda>r. st ! r) (tmpl_steps tmpl))")
    case (Inl e)
    have "snd (customize_steps_for_difficulty st (tmpl_steps tmpl) d) = Inl e"
      by (rule customize_steps_Inl[OF Inl])
    then show ?thesis using assms Some
      by (auto simp: generate_scenario_def split: prod.splits sum.splits)
  next
    case (Inr ss)
    have cs: "customize_steps_for_difficulty st (tmpl_steps tmpl) d
                = (st @ ss, Inr [length st ..< length st + length ss])"
      by (rule customize_steps_Inr[OF Inr])
    have enh: "enhance_steps_for_objectives (st @ ss) [length st ..< length st + length ss] objs
                 = st @ map (enhance_step objs) ss"
      by (rule enhance_loop_fresh)
    have rd: "map (\<lambda>r. (st @ map (enhance_step objs) ss) ! r) [length st ..< length st + length ss]
                = map (enhance_step objs) ss"
      using read_fresh[of st "map (enhance_step objs) ss"] by simp
    from assms show ?thesis
      unfolding generate_scenario_def Some option.case cs prod.case sum.case Let_def enh rd
      using Inr by (auto simp: bind_err_Inr_iff)
  qed
qed


section \<open>Ad-hoc complications\<close>

text \<open>
  Claim C9 says that every possible result of \<open>generate_dynamic_complication\<close> carries a
  description, a severity, an action list and a time limit, and is never empty. The
  catalog of names has three entries, the table of scenarios only two: when the draw
  selects \<open>equipment_malfunction\<close> the result is the empty dict, for every state that
  has a scenario under \<open>simulation\<close> and every current step.
\<close>

theorem dynamic_complication_empty:
  "generate_dynamic_complication (sd\<lparr>simulation := Some sc\<rparr>) current_step 2 = Inr []"
  by (simp add: generate_dynamic_complication_def random_choice_def complication_scenarios_def
      get_default_def bind_err_def require_key_def)

section \<open>Difficulty customization\<close>

lemma beginner_duration_10_15:
  "extend_duration ''10-15 minutes'' float_1_5 = Inr ''15-22 minutes''"
  by code_simp

text \<open>
  Claim C4 says that an advanced step with duration 10-15 minutes becomes 8-12 minutes.
  The \<open>advanced\<close> branch raises AttributeError on the first step, so no step is ever
  customized at that difficulty.
\<close>

theorem customize_advanced_raises:
  "snd (customize_steps_for_difficulty
          [template_step 1 ''Patient Preparation''
             ''Position patient supine, prep and drape surgical site'' ''10-15 minutes'' [] []]
          [0] ''advanced'') = Inl AttributeError"
  by (simp add: customize_steps_for_difficulty_def deep_copy_def customize_step_def)

section \<open>Generated scenarios\<close>




lemma random_randint_range: "a \<le> b \<Longrightarrow> a \<le> random_randint k a b \<and> random_randint k a b \<le> b"
proof -
  assume ab: "a \<le> b"
  have "0 < nat (b - a + 1)" using ab by simp
  then have "k mod nat (b - a + 1) < nat (b - a + 1)" by (rule mod_less_divisor)
  then have "int (k mod nat (b - a + 1)) < b - a + 1" using ab by linarith
  then show ?thesis by (simp add: random_randint_def)
qed

lemma random_choice_mem: "random_choice k xs = Inr x \<Longrightarrow> x \<in> set xs"
  by (auto simp: random_choice_def split: if_splits)

lemma dict_get_Inr: "dict_get d k = Inr v \<longleftrightarrow> map_of d k = Some v"
  by (simp add: dict_get_def split: option.splits)

lemma generate_complications_props:
  assumes "generate_complications self p d rng = Inr cs"
  shows "length cs \<le> 1
       \<and> (\<forall>c \<in> set cs.
            (\<exists>tr. c_trigger_step c = Some tr \<and> 2 \<le> tr \<and> tr \<le> 5)
          \<and> c_type c \<in> set (possible_complications p)
          \<and> (\<exists>entry sevs locs.
                 map_of (complication_library self) (c_type c) = Some entry
               \<and> map_of entry ''severity'' = Some sevs \<and> c_severity c \<in> set sevs
               \<and> map_of entry ''locations'' = Some locs \<and> c_location c \<in> set locs
               \<and> map_of entry ''management'' = Some (c_management_options c)))"
proof (cases "r_random rng < (case map_of prob_map d of None \<Rightarrow> 0.5 | Some q \<Rightarrow> q)")
  case False
  then have "cs = []" using assms by (simp add: generate_complications_def)
  then show ?thesis by simp
next
  case True
  from assms True obtain sel entry sevs sev locs loc mg where
    sel: "random_choice (r_type rng) (possible_complications p) = Inr sel"
    and entry: "dict_get (complication_library self) sel = Inr entry"
    and sevs: "dict_get entry ''severity'' = Inr sevs"
    and sev: "random_choice (r_severity rng) sevs = Inr sev"
    and locs: "dict_get entry ''locations'' = Inr locs"
    and loc: "random_choice (r_location rng) locs = Inr loc"
    and mg: "dict_get entry ''management'' = Inr mg"
    and cs: "cs = [\<lparr>c_type = sel, c_severity = sev, c_location = loc,
                    c_trigger_step = Some (random_randint (r_trigger rng) 2 5),
                    c_management_options = mg\<rparr>]"
    unfolding generate_complications_def by (simp add: bind_err_Inr_iff) blast
  have tr: "2 \<le> random_randint (r_trigger rng) 2 5 \<and> random_randint (r_trigger rng) 2 5 \<le> 5"
    by (rule random_randint_range) simp
  show ?thesis
    unfolding cs
    using tr random_choice_mem[OF sel] random_choice_mem[OF sev] random_choice_mem[OF loc]
      entry sevs locs mg
    by (simp add: dict_get_Inr)
qed

text \<open>
  Claim C6: a generated scenario carries at most one pre-planned complication, none when
  complications are disabled; a generated complication has its trigger step in 2..5, its
  type among the types allowed for the procedure, and its severity, location and
  management options taken from the library entry of that type.
\<close>

theorem preplanned_complications:
  assumes "generate_scenario self st p d pat objs en rng now = (st', Inr sc)"
  shows "\<exists>cs. complications sc = Some cs
       \<and> length cs \<le> 1
       \<and> (\<not> en \<longrightarrow> cs = [])
       \<and> (\<forall>c \<in> set cs.
            (\<exists>tr. c_trigger_step c = Some tr \<and> 2 \<le> tr \<and> tr \<le> 5)
          \<and> c_type c \<in> set (possible_complications p)
          \<and> (\<exists>entry sevs locs.
                 map_of (complication_library self) (c_type c) = Some entry
               \<and> map_of entry ''severity'' = Some sevs \<and> c_severity c \<in> set sevs
               \<and> map_of entry ''locations'' = Some locs \<and> c_location c \<in> set locs
               \<and> map_of entry ''management'' = Some (c_management_options c)))"
proof -
  from generate_scenario_Inr[OF assms] obtain cs where
    cs: "complications sc = Some cs"
    and g: "(if en then generate_complications self p d rng else Inr []) = Inr cs"
    by blast
  show ?thesis
  proof (cases en)
    case False
    then have "cs = []" using g by simp
    then show ?thesis using cs by simp
  next
    case True
    then have "generate_complications self p d rng = Inr cs" using g by simp
    from generate_complications_props[OF this] True cs show ?thesis by simp
  qed
qed

theorem preplanned_complications_witness:
  "\<exists>st' sc c. generate_scenario new_generator catalog_steps ''appendectomy'' ''beginner'' ()
               [''appendix''] True sample_draws ''t'' = (st', Inr sc)
           \<and> complications sc = Some [c] \<and> c_type c = ''bleeding'' \<and> c_trigger_step c = Some 5
           \<and> c_type c \<in> set (possible_complications ''appendectomy'')"
proof -
  have "\<not> isl (snd (generate_scenario new_generator catalog_steps ''appendectomy'' ''beginner'' ()
                       [''appendix''] True sample_draws ''t''))"
    by code_simp
  then obtain st' sc where gs:
    "generate_scenario new_generator catalog_steps ''appendectomy'' ''beginner'' ()
       [''appendix''] True sample_draws ''t'' = (st', Inr sc)"
    by (metis prod.collapse sum.collapse(2))
  have c: "generate_complications new_generator ''appendectomy'' ''beginner'' sample_draws
        = Inr [\<lparr>c_type = ''bleeding'', c_severity = ''moderate'',
                c_location = ''mesenteric vessel'', c_trigger_step = Some 5,
                c_management_options =
                  [''pressure'', ''electrocautery'', ''clip application'', ''conversion'']\<rparr>]"
    by code_simp
  from generate_scenario_Inr[OF gs] c
  have cs: "complications sc = Some [\<lparr>c_type = ''bleeding'', c_severity = ''moderate'',
                c_location = ''mesenteric vessel'', c_trigger_step = Some 5,
                c_management_options =
                  [''pressure'', ''electrocautery'', ''clip application'', ''conversion'']\<rparr>]"
    by auto
  from preplanned_complications[OF gs] cs
  have "c_type (hd (the (complications sc))) \<in> set (possible_complications ''appendectomy'')"
    by simp
  then show ?thesis using gs cs by auto
qed

section \<open>Communication score, estimated duration, final assessment\<close>

lemma communication_loop_sum:
  "communication_loop cs acc = acc + 25 * real (sum_list (map criteria_met cs))"
  by (induction cs arbitrary: acc) (simp_all add: criteria_met_def Let_def)

text \<open>
  Claim C3, as the code has it: with no communication action the sub-score is 50;
  otherwise every communication action adds 25 points for each of the three criteria
  (clarity, timing, professionalism above 0.8) that it meets itself, and the sum over all
  communication actions is clamped to 100.
\<close>

theorem communication_counts_every_action:
  "assess_communication actions =
     (if filter (\<lambda>a. a_type a = Some ''communication'') actions = [] then 50
      else min (25 * real (sum_list (map criteria_met
                  (filter (\<lambda>a. a_type a = Some ''communication'') actions)))) 100)"
  by (simp add: assess_communication_def Let_def communication_loop_sum)

theorem communication_counts_every_action_witness:
  "assess_communication [clear_message, clear_message] = 50"
  using communication_counts_every_action[of "[clear_message, clear_message]"]
  by (simp add: clear_message_def criteria_met_def get_default_def)

text \<open>
  Claim C3 as stated (25 points per criterion met by at least one communication action,
  at most 75) fails: two communication actions that are both clear, and nothing else,
  score 50, not 25.
\<close>

theorem communication_per_criterion_counterexample:
  "assess_communication [clear_message, clear_message]
     \<noteq> communication_per_criterion [clear_message, clear_message]"
proof -
  have "assess_communication [clear_message, clear_message] = 50"
    by (simp add: assess_communication_def clear_message_def get_default_def)
  moreover have "communication_per_criterion [clear_message, clear_message] = 25"
    by (simp add: communication_per_criterion_def clear_message_def get_default_def)
  ultimately show ?thesis by simp
qed

lemma calculate_duration_loop_ranges:
  "list_all2 has_range ss rs \<Longrightarrow> calculate_duration_loop ss acc = Inr (acc + midpoint_sum rs)"
proof (induction ss rs arbitrary: acc rule: list_all2_induct)
  case Nil
  then show ?case by (simp add: midpoint_sum_def)
next
  case (Cons s ss r rs)
  have d: "duration s = Some (range_str (fst r) (snd r))" using Cons.hyps(1) by (simp add: has_range_def)
  have parse: "map_err py_int [nat_str (fst r), nat_str (snd r)] = Inr [int (fst r), int (snd r)]"
    by (simp add: py_int_nat_str bind_err_def)
  have "calculate_duration_loop (s # ss) acc
          = calculate_duration_loop ss (acc + real_of_int (int (fst r) + int (snd r)) / 2)"
    by (simp add: d require_key_def bind_err_def duration_parts py_int_nat_str)
  also have "\<dots> = Inr (acc + real_of_int (int (fst r) + int (snd r)) / 2 + midpoint_sum rs)"
    by (rule Cons.IH)
  finally show ?case by (simp add: midpoint_sum_def)
qed

lemma midpoint_sum_nonneg: "0 \<le> midpoint_sum rs"
  unfolding midpoint_sum_def by (induction rs) simp_all

text \<open>
  Claim C7, as the code has it: for steps whose duration strings have the form
  "min-max minutes", the estimated duration is the sum of the midpoints (min+max)/2,
  truncated to an integer (\<open>int(total)\<close>), not rounded to the nearest one.
\<close>

theorem estimated_duration_truncates:
  assumes "list_all2 has_range ss rs"
  shows "calculate_duration ss difficulty = Inr \<lfloor>midpoint_sum rs\<rfloor>"
  using calculate_duration_loop_ranges[OF assms, of 0] midpoint_sum_nonneg[of rs]
  by (simp add: calculate_duration_def bind_err_def trunc_def)

lemma range_str_13_14: "''13-14 minutes'' = range_str 13 14"
  by (simp add: range_str_def nat_str.simps digit_char_def)

theorem estimated_duration_truncates_witness:
  "list_all2 has_range [short_step] [(13, 14)]
   \<and> calculate_duration [short_step] ''intermediate'' = Inr 13"
proof -
  have h: "list_all2 has_range [short_step] [(13, 14)]"
    by (simp add: has_range_def short_step_def template_step_def range_str_13_14)
  have "\<lfloor>midpoint_sum [(13, 14)]\<rfloor> = 13" by (simp add: midpoint_sum_def)
  then show ?thesis using h estimated_duration_truncates[OF h, of "''intermediate''"] by simp
qed

text \<open>
  Claim C7 as stated fails: for a single step of 13-14 minutes the sum of midpoints is
  13.5, which rounds to 14; the code returns 13.
\<close>

theorem estimated_duration_rounding_counterexample:
  "calculate_duration [short_step] ''intermediate'' \<noteq> Inr (round (midpoint_sum [(13, 14)]))"
proof -
  have h: "list_all2 has_range [short_step] [(13, 14)]"
    by (simp add: has_range_def short_step_def template_step_def range_str_13_14)
  have a: "calculate_duration [short_step] ''intermediate'' = Inr 13"
    using calculate_duration_loop_ranges[OF h, of 0]
    by (simp add: calculate_duration_def bind_err_def trunc_def midpoint_sum_def)
  have b: "round (midpoint_sum [(13, 14)]) = 14" by (simp add: midpoint_sum_def round_def)
  show ?thesis unfolding a b by simp
qed

lemma final_feedback_returns:
  assumes "simulation sd = Some sc" "difficulty_level sc = Some d"
  shows "\<exists>ff. generate_final_feedback overall tr sd = Inr ff"
  using assms by (simp add: generate_final_feedback_def require_key_def bind_err_def Let_def)

lemma final_feedback_raises:
  assumes "simulation sd = None \<or> (\<exists>sc. simulation sd = Some sc \<and> difficulty_level sc = None)"
  shows "generate_final_feedback overall tr sd = Inl KeyError"
  using assms by (auto simp: generate_final_feedback_def require_key_def bind_err_def Let_def)

lemma efficiency_returns:
  "simulation sd = Some sc \<Longrightarrow> \<exists>r. calculate_efficiency total_time sd = Inr r"
  by (simp add: calculate_efficiency_def require_key_def bind_err_def Let_def)

text \<open>
  Claim C8 says that every non-empty history yields a final assessment. The final
  feedback subscripts \<open>simulation\<close> and \<open>difficulty_level\<close>: on the simulation state of
  test\_app.py, which has no difficulty level, a history of one assessment raises
  KeyError.
\<close>

theorem final_assessment_fixture_counterexample:
  "generate_final_assessment new_engine
     (test_data\<lparr>step_assessments := Some [sample_assessment]\<rparr>) ''t'' = Inl KeyError"
proof -
  have "generate_final_feedback overall tr (test_data\<lparr>step_assessments := Some [sample_assessment]\<rparr>)
          = Inl KeyError" for overall tr
    by (rule final_feedback_raises) (simp add: test_data_def)
  then show ?thesis
    by (simp add: generate_final_assessment_def get_default_def Let_def bind_err_def)
qed

text \<open>
  Claim C8, as the code has it: with an empty (or absent) step-assessment history
  \<open>generate_final_assessment\<close> returns the error marker, whatever else the state holds.
  With a non-empty history and a state whose scenario is present and has a difficulty
  level, it returns a final assessment whose \<open>certification_eligible\<close> holds exactly when
  the mean of the overall scores (their sum divided by their number) is at least 75, and
  \<open>next_difficulty_ready\<close> exactly when that mean is at least 85. With a non-empty history
  and a state that lacks the scenario or its difficulty level, it raises KeyError.
\<close>

theorem final_assessment_mean_gates:
  "(get_default (step_assessments sd) [] = [] \<longrightarrow>
      generate_final_assessment self sd now = Inr (ErrorMarker ''No step assessments found''))
   \<and> (get_default (step_assessments sd) [] \<noteq> []
        \<and> simulation sd = Some sc \<and> difficulty_level sc = Some d \<longrightarrow>
        (\<exists>fa. generate_final_assessment self sd now = Inr (FinalAssessment fa)
             \<and> (certification_eligible fa \<longleftrightarrow>
                  sum_list (map overall_score (get_default (step_assessments sd) []))
                    / real (length (get_default (step_assessments sd) [])) \<ge> 75)
             \<and> (next_difficulty_ready fa \<longleftrightarrow>
                  sum_list (map overall_score (get_default (step_assessments sd) []))
                    / real (length (get_default (step_assessments sd) [])) \<ge> 85)))
   \<and> (get_default (step_assessments sd) [] \<noteq> []
        \<and> (simulation sd = None \<or> simulation sd = Some sc \<and> difficulty_level sc = None) \<longrightarrow>
        generate_final_assessment self sd now = Inl KeyError)"
proof (intro conjI impI)
  assume "get_default (step_assessments sd) [] = []"
  then show "generate_final_assessment self sd now = Inr (ErrorMarker ''No step assessments found'')"
    by (simp add: generate_final_assessment_def)
next
  assume a: "get_default (step_assessments sd) [] \<noteq> []
               \<and> simulation sd = Some sc \<and> difficulty_level sc = Some d"
  define hist where "hist = get_default (step_assessments sd) []"
  define avg where "avg = sum_list (map overall_score hist) / real (length hist)"
  obtain ff where ff: "generate_final_feedback avg (analyze_performance_trends hist) sd = Inr ff"
    using final_feedback_returns[of sd sc d] a by blast
  obtain r where r: "calculate_efficiency (sum_list (map time_taken hist)) sd = Inr r"
    using efficiency_returns[of sd sc] a by blast
  have ne: "hist \<noteq> []" using a by (simp add: hist_def)
  show "\<exists>fa. generate_final_assessment self sd now = Inr (FinalAssessment fa)
             \<and> (certification_eligible fa \<longleftrightarrow>
                  sum_list (map overall_score (get_default (step_assessments sd) []))
                    / real (length (get_default (step_assessments sd) [])) \<ge> 75)
             \<and> (next_difficulty_ready fa \<longleftrightarrow>
                  sum_list (map overall_score (get_default (step_assessments sd) []))
                    / real (length (get_default (step_assessments sd) [])) \<ge> 85)"
    unfolding generate_final_assessment_def hist_def[symmetric] Let_def
    using ne ff r by (simp add: avg_def bind_err_def)
next
  assume a: "get_default (step_assessments sd) [] \<noteq> []
               \<and> (simulation sd = None \<or> simulation sd = Some sc \<and> difficulty_level sc = None)"
  have "generate_final_feedback overall tr sd = Inl KeyError" for overall tr
    by (rule final_feedback_raises) (use a in auto)
  then show "generate_final_assessment self sd now = Inl KeyError"
    using a by (simp add: generate_final_assessment_def Let_def bind_err_def)
qed

theorem final_assessment_mean_gates_witness:
  "generate_final_assessment new_engine test_data ''t''
     = Inr (ErrorMarker ''No step assessments found'')
   \<and> (\<exists>fa. generate_final_assessment new_engine
               (chole_state\<lparr>step_assessments := Some [sample_assessment, second_assessment]\<rparr>) ''t''
               = Inr (FinalAssessment fa)
          \<and> certification_eligible fa \<and> \<not> next_difficulty_ready fa)
   \<and> generate_final_assessment new_engine
       (test_data\<lparr>step_assessments := Some [sample_assessment]\<rparr>) ''t'' = Inl KeyError"
proof -
  define sc where "sc = the (simulation chole_state)"
  define tc where "tc = the (simulation test_data)"
  have e: "get_default (step_assessments test_data) [] = []"
    by (simp add: test_data_def get_default_def)
  have n: "get_default (step_assessments
              (chole_state\<lparr>step_assessments := Some [sample_assessment, second_assessment]\<rparr>)) []
             = [sample_assessment, second_assessment]"
    by (simp add: get_default_def)
  have k: "get_default (step_assessments (test_data\<lparr>step_assessments := Some [sample_assessment]\<rparr>)) []
             = [sample_assessment]"
    by (simp add: get_default_def)
  have s: "simulation (chole_state\<lparr>step_assessments := Some [sample_assessment, second_assessment]\<rparr>)
             = Some sc"
          "difficulty_level sc = Some ''standard''"
    by (simp_all add: sc_def chole_state_def)
  have t: "simulation (test_data\<lparr>step_assessments := Some [sample_assessment]\<rparr>) = Some tc"
          "difficulty_level tc = None"
    by (simp_all add: tc_def test_data_def)
  have avg: "sum_list (map overall_score [sample_assessment, second_assessment])
               / real (length [sample_assessment, second_assessment]) = 77"
    by (simp add: sample_assessment_def second_assessment_def)
  show ?thesis
    using final_assessment_mean_gates[of test_data new_engine "''t''"]
      final_assessment_mean_gates[of
        "chole_state\<lparr>step_assessments := Some [sample_assessment, second_assessment]\<rparr>"
        new_engine "''t''" sc "''standard''"]
      final_assessment_mean_gates[of "test_data\<lparr>step_assessments := Some [sample_assessment]\<rparr>"
        new_engine "''t''" tc]
    unfolding e n k avg using s t by simp
qed

section \<open>Step assessment\<close>

lemma feedback_returns: "\<exists>fb. generate_step_feedback new_engine ov te nt s acts k = Inr fb"
  by (simp add: generate_step_feedback_def new_engine_def load_feedback_templates_def dict_get_def
      random_choice_def bind_err_def Let_def)

lemma non_technical_returns:
  "assess_time_management t s = Inr v \<Longrightarrow> \<exists>nt. assess_non_technical_skills s acts t = Inr nt"
  by (simp add: assess_non_technical_skills_def bind_err_def Let_def)

lemma assess_step_returns:
  assumes sc: "simulation sd = Some sc"
    and idx: "py_index (steps sc) (n - 1) = Inr s"
    and nt: "assess_non_technical_skills s acts t = Inr nt"
  shows "\<exists>a. assess_step new_engine sd n acts t k now = Inr a
           \<and> sa_step_number a = n
           \<and> technical_score a =
               assess_technical_skills new_engine
                 (replace_str '' '' ''_'' (lower (pi_name (procedure_info sc)))) s acts t
           \<and> non_technical_score a = nt
           \<and> overall_score a = technical_score a * 0.7 + nt * 0.3"
proof -
  define te where "te = assess_technical_skills new_engine
      (replace_str '' '' ''_'' (lower (pi_name (procedure_info sc)))) s acts t"
  obtain fb where fb: "generate_step_feedback new_engine (te * 0.7 + nt * 0.3) te nt s acts k = Inr fb"
    using feedback_returns by blast
  have "assess_step new_engine sd n acts t k now =
          Inr \<lparr>sa_step_number = n, technical_score = te, non_technical_score = nt,
               overall_score = te * 0.7 + nt * 0.3, sa_feedback = Some fb, time_taken = t,
               timestamp = now,
               areas_for_improvement = identify_improvement_areas te nt acts\<rparr>"
    unfolding assess_step_def sc require_key_def option.case Let_def idx nt te_def[symmetric]
      bind_err_def sum.case fb ..
  then show ?thesis unfolding te_def by simp
qed

text \<open>
  Claim C1 says that a step number below 1 makes \<open>assess_step\<close> fail. The step is read
  with \<open>steps[step_number - 1]\<close> and nothing checks the lower bound: for step number 0
  the index is -1, which Python resolves to the last step, and an assessment with step
  number 0 is returned. (Step numbers above the step count do raise IndexError.)
\<close>

theorem step_zero_is_assessed:
  "\<exists>a. assess_step new_engine test_data 0 [] 60 0 ''t'' = Inr a \<and> sa_step_number a = 0"
proof -
  define sc where "sc = the (simulation test_data)"
  define s where "s = hd (steps sc)"
  have sc: "simulation test_data = Some sc"
    by (simp add: sc_def test_data_def)
  have idx: "py_index (steps sc) (0 - 1) = Inr s"
    by (simp add: py_index_def test_data_def sc_def s_def)
  have "duration s = Some (range_str 10 15)"
    by (simp add: s_def sc_def test_data_def range_str_10_15)
  then obtain v where "assess_time_management 60 s = Inr v"
    using time_management_returns[of s 10 15 60] by auto
  then obtain nt where nt: "assess_non_technical_skills s [] 60 = Inr nt"
    using non_technical_returns by blast
  from assess_step_returns[OF sc idx nt, of 0 "''t''"] show ?thesis by blast
qed

text \<open>
  Claim C2 says that the technical score and the overall score lie in [0,100] for
  quality fields in [0,1] and a non-negative time. Each skill score is clamped to 100
  and the weighted mean of the skill scores is then multiplied by 100 again: one accurate
  trocar-placement action (accuracy 0.9) on the step "Trocar Placement", in 300 seconds,
  gives a technical score of 2000 and an overall score of 1420.1.
\<close>

theorem technical_score_exceeds_100:
  "assess_technical_skills new_engine ''laparoscopic_cholecystectomy'' trocar_step
      [trocar_action] 300 = 2000
   \<and> (\<exists>a. assess_step new_engine chole_state 2 [trocar_action] 300 0 ''t'' = Inr a
          \<and> technical_score a = 2000 \<and> non_technical_score a = 67 \<and> overall_score a = 1420.1)"
proof -
  have te: "assess_technical_skills new_engine ''laparoscopic_cholecystectomy'' trocar_step
              [trocar_action] 300 = 2000"
    by code_simp
  define sc where "sc = the (simulation chole_state)"
  have sc: "simulation chole_state = Some sc"
    by (simp add: sc_def chole_state_def)
  have "pi_name (procedure_info sc) = ''Laparoscopic Cholecystectomy''"
    by (simp add: sc_def chole_state_def)
  moreover have "replace_str '' '' ''_'' (lower ''Laparoscopic Cholecystectomy'')
                   = ''laparoscopic_cholecystectomy''"
    by code_simp
  ultimately have nm: "replace_str '' '' ''_'' (lower (pi_name (procedure_info sc)))
              = ''laparoscopic_cholecystectomy''"
    by simp
  have idx: "py_index (steps sc) (2 - 1) = Inr trocar_step"
    by (simp add: py_index_def sc_def chole_state_def)
  have nt: "assess_non_technical_skills trocar_step [trocar_action] 300 = Inr 67"
    by code_simp
  from assess_step_returns[OF sc idx nt, of 0 "''t''"] te show ?thesis
    unfolding nm by auto
qed

section \<open>Procedures without scoring criteria\<close>

lemma range_str_5_10: "''5-10 minutes'' = range_str 5 10"
  by (simp add: range_str_def nat_str.simps digit_char_def)

lemma range_str_15_20: "''15-20 minutes'' = range_str 15 20"
  by (simp add: range_str_def nat_str.simps digit_char_def)

lemma range_str_15_25: "''15-25 minutes'' = range_str 15 25"
  by (simp add: range_str_def nat_str.simps digit_char_def)

lemma range_str_20_30: "''20-30 minutes'' = range_str 20 30"
  by (simp add: range_str_def nat_str.simps digit_char_def)

lemma catalog_has_ranges: "list_all2 has_range catalog_steps catalog_ranges"
  by (simp add: catalog_steps_def catalog_ranges_def has_range_def template_step_def
      range_str_10_15 range_str_5_10 range_str_15_20 range_str_15_25 range_str_20_30)

lemma catalog_ranges_at_least_2: "\<forall>r \<in> set catalog_ranges. 2 \<le> fst r \<and> 2 \<le> snd r"
  by (simp add: catalog_ranges_def)

lemma catalog_step_timed:
  assumes "i < length catalog_steps"
  shows "\<exists>a b. duration (catalog_steps ! i) = Some (range_str a b) \<and> 2 \<le> a \<and> 2 \<le> b"
proof -
  have len: "length catalog_ranges = length catalog_steps"
    using catalog_has_ranges by (simp add: list_all2_lengthD)
  have "has_range (catalog_steps ! i) (catalog_ranges ! i)"
    using catalog_has_ranges assms by (rule list_all2_nthD)
  moreover have "catalog_ranges ! i \<in> set catalog_ranges" using assms len by simp
  ultimately show ?thesis using catalog_ranges_at_least_2 by (auto simp: has_range_def)
qed

lemma generated_step_timed:
  assumes gs: "generate_scenario self st p d pat objs en rng now = (st', Inr sc)"
    and st: "take (length catalog_steps) st = catalog_steps"
    and refs: "\<forall>tmpl. map_of (procedure_templates self) p = Some tmpl
                 \<longrightarrow> (\<forall>r \<in> set (tmpl_steps tmpl). r < length catalog_steps)"
    and i: "i < length (steps sc)"
  shows "\<exists>a b. duration (steps sc ! i) = Some (range_str a b) \<and> 0 < a \<and> 0 < b"
proof -
  from generate_scenario_Inr[OF gs] obtain tmpl ss where
    t: "map_of (procedure_templates self) p = Some tmpl"
    and m: "map_err (customize_step d) (map (\<lambda>r. st ! r) (tmpl_steps tmpl)) = Inr ss"
    and s: "steps sc = map (enhance_step objs) ss"
    by blast
  have len: "length ss = length (tmpl_steps tmpl)" using map_err_length[OF m] by simp
  have i': "i < length (tmpl_steps tmpl)" using i s len by simp
  define r where "r = tmpl_steps tmpl ! i"
  have r: "r < length catalog_steps" using refs t i' unfolding r_def by simp
  have "st ! r = take (length catalog_steps) st ! r" using r by simp
  then have str: "st ! r = catalog_steps ! r" using st by simp
  have "customize_step d (map (\<lambda>r. st ! r) (tmpl_steps tmpl) ! i) = Inr (ss ! i)"
    using list_all2_nthD[OF map_err_all2[OF m]] i' by simp
  then have c: "customize_step d (catalog_steps ! r) = Inr (ss ! i)"
    using i' str by (simp add: r_def)
  from catalog_step_timed[OF r] obtain a b where
    ab: "duration (catalog_steps ! r) = Some (range_str a b)" "2 \<le> a" "2 \<le> b" by blast
  from customize_step_duration[OF c ab] obtain a' b' where
    "duration (ss ! i) = Some (range_str a' b')" "0 < a'" "0 < b'" by blast
  then show ?thesis using s i len i' by (auto simp: enhance_step_duration)
qed

lemma unlisted_keys:
  "replace_str '' '' ''_'' (lower ''Laparoscopic Appendectomy'') = ''laparoscopic_appendectomy''"
  "replace_str '' '' ''_'' (lower ''Knee Arthroscopy'') = ''knee_arthroscopy''"
  by code_simp+

lemma unlisted_not_scored:
  "assess_technical_skills new_engine ''laparoscopic_appendectomy'' s acts t = 0"
  "assess_technical_skills new_engine ''knee_arthroscopy'' s acts t = 0"
  by (simp_all add: assess_technical_skills_def new_engine_def load_scoring_criteria_def)

text \<open>
  Claim C10: for a scenario generated from the appendectomy or the knee-arthroscopy
  template (from a store that still holds the catalog), every step number in
  1..step count, every action list and every time, \<open>assess_step\<close> returns an assessment
  whose technical score is 0 and whose overall score is 0.3 times the non-technical
  score: the key derived from the procedure name is not in the scoring-criteria table.
\<close>

theorem unlisted_procedure_scores_zero:
  assumes gs: "generate_scenario new_generator st p d pat objs en rng now = (st', Inr sc)"
    and st: "take (length catalog_steps) st = catalog_steps"
    and p: "p = ''appendectomy'' \<or> p = ''knee_arthroscopy''"
    and n: "1 \<le> n" "n \<le> int (length (steps sc))"
  shows "\<exists>a. assess_step new_engine
               \<lparr>simulation = Some sc, step_assessments = sas, simulation_id = sid\<rparr>
               n acts t k now' = Inr a
           \<and> technical_score a = 0
           \<and> overall_score a = 0.3 * non_technical_score a"
proof -
  define sd where "sd = \<lparr>simulation = Some sc, step_assessments = sas, simulation_id = sid\<rparr>"
  have sd: "simulation sd = Some sc" by (simp add: sd_def)
  define i where "i = nat (n - 1)"
  have i: "i < length (steps sc)" using n by (simp add: i_def)
  have idx: "py_index (steps sc) (n - 1) = Inr (steps sc ! i)"
    using n by (simp add: py_index_def i_def)
  have refs: "\<forall>tmpl. map_of (procedure_templates new_generator) p = Some tmpl
                 \<longrightarrow> (\<forall>r \<in> set (tmpl_steps tmpl). r < length catalog_steps)"
    using p by (auto simp: new_generator_def load_procedure_templates_def catalog_steps_def)
  from generated_step_timed[OF gs st refs i] obtain a b where
    "duration (steps sc ! i) = Some (range_str a b)" "0 < a" "0 < b" by blast
  then obtain v where "assess_time_management t (steps sc ! i) = Inr v"
    using time_management_returns[of "steps sc ! i" a b t] by auto
  then obtain nt where nt: "assess_non_technical_skills (steps sc ! i) acts t = Inr nt"
    using non_technical_returns by blast
  from generate_scenario_Inr[OF gs] obtain tmpl where
    t: "map_of (procedure_templates new_generator) p = Some tmpl"
    and nm: "pi_name (procedure_info sc) = tmpl_name tmpl" by blast
  have key: "replace_str '' '' ''_'' (lower (pi_name (procedure_info sc)))
               = ''laparoscopic_appendectomy''
           \<or> replace_str '' '' ''_'' (lower (pi_name (procedure_info sc)))
               = ''knee_arthroscopy''"
    using p t nm unlisted_keys
    by (auto simp: new_generator_def load_procedure_templates_def)
  from assess_step_returns[OF sd idx nt, of k now'] obtain a where
    a: "assess_step new_engine sd n acts t k now' = Inr a"
    and te: "technical_score a = assess_technical_skills new_engine
               (replace_str '' '' ''_'' (lower (pi_name (procedure_info sc))))
               (steps sc ! i) acts t"
    and nta: "non_technical_score a = nt"
    and ov: "overall_score a = technical_score a * 0.7 + nt * 0.3"
    by blast
  have "technical_score a = 0" using te key unlisted_not_scored by auto
  then show ?thesis using a nta ov unfolding sd_def by auto
qed

theorem unlisted_procedure_scores_zero_witness:
  "\<exists>st' sc a. generate_scenario new_generator catalog_steps ''appendectomy'' ''beginner'' ()
                 [''appendix''] True sample_draws ''t'' = (st', Inr sc)
            \<and> assess_step new_engine
                 \<lparr>simulation = Some sc, step_assessments = None, simulation_id = None\<rparr>
                 2 [trocar_action] 300 0 ''t'' = Inr a
            \<and> technical_score a = 0"
proof -
  have "\<not> isl (snd (generate_scenario new_generator catalog_steps ''appendectomy'' ''beginner'' ()
                       [''appendix''] True sample_draws ''t''))"
    by code_simp
  then obtain st' sc where gs:
    "generate_scenario new_generator catalog_steps ''appendectomy'' ''beginner'' ()
       [''appendix''] True sample_draws ''t'' = (st', Inr sc)"
    by (metis prod.collapse sum.collapse(2))
  from generate_scenario_Inr[OF gs] obtain tmpl ss where
    t: "map_of (procedure_templates new_generator) ''appendectomy'' = Some tmpl"
    and m: "map_err (customize_step ''beginner'') (map (\<lambda>r. catalog_steps ! r) (tmpl_steps tmpl))
              = Inr ss"
    and s: "steps sc = map (enhance_step [''appendix'']) ss"
    by blast
  have "tmpl_steps tmpl = [6, 7, 8, 9, 10]"
    using t by (auto simp: new_generator_def load_procedure_templates_def)
  then have len: "length (steps sc) = 5" using map_err_length[OF m] s by simp
  have st: "take (length catalog_steps) catalog_steps = catalog_steps" by simp
  have n: "(1::int) \<le> 2" "(2::int) \<le> int (length (steps sc))" using len by simp_all
  from unlisted_procedure_scores_zero[OF gs st _ n, of None None "[trocar_action]" 300 0 "''t''"]
  show ?thesis using gs by auto
qed

section \<open>Further facts about the model\<close>

text \<open>
  Step lookup inside and above the range, the range of the non-technical score, the
  possible results of an ad-hoc complication, the durations after customization at
  the difficulties that do not raise, and the consistency note.
\<close>

lemma step_lookup_in_range:
  "1 \<le> n \<Longrightarrow> n \<le> int (length xs) \<Longrightarrow> py_index xs (n - 1) = Inr (xs ! (nat n - 1))"
  by (simp add: py_index_def nat_diff_distrib)

lemma step_lookup_above:
  "int (length xs) < n \<Longrightarrow> py_index xs (n - 1) = Inl IndexError"
  by (simp add: py_index_def)

lemma assess_step_above_raises:
  "simulation sd = Some sc \<Longrightarrow> int (length (steps sc)) < n \<Longrightarrow>
   assess_step self sd n acts t k now = Inl IndexError"
  by (simp add: assess_step_def step_lookup_above bind_err_def require_key_def)

lemma assess_step_without_scenario:
  "simulation sd = None \<Longrightarrow> assess_step self sd n acts t k now = Inl KeyError"
  by (simp add: assess_step_def bind_err_def require_key_def)

lemma communication_in_range: "0 \<le> assess_communication acts \<and> assess_communication acts \<le> 100"
  by (simp add: assess_communication_def Let_def communication_loop_sum)

lemma decision_loop_bounds:
  "acc \<le> decision_loop ds acc \<and> decision_loop ds acc \<le> acc + real (length ds)"
proof (induction ds arbitrary: acc)
  case Nil
  then show ?case by simp
next
  case (Cons d ds)
  show ?case
    using Cons.IH[of "acc + 1"] Cons.IH[of "acc + 0.7"] Cons.IH[of acc] by auto
qed

lemma decision_in_range:
  "0 \<le> assess_decision_making acts s \<and> assess_decision_making acts s \<le> 100"
proof -
  define ds where "ds = filter (\<lambda>a. a_type a = Some ''decision'') acts"
  show ?thesis
  proof (cases "ds = []")
    case True
    then show ?thesis by (simp add: assess_decision_making_def ds_def[symmetric])
  next
    case False
    then have pos: "0 < real (length ds)" by simp
    have b: "0 \<le> decision_loop ds 0" "decision_loop ds 0 \<le> real (length ds)"
      using decision_loop_bounds[of 0 ds] by simp_all
    have hi: "decision_loop ds 0 / real (length ds) * 100 \<le> 100"
      using b pos by (simp add: field_simps)
    have lo: "0 \<le> decision_loop ds 0 / real (length ds) * 100"
      using b pos by (simp add: field_simps)
    have "assess_decision_making acts s = decision_loop ds 0 / real (length ds) * 100"
      using False unfolding assess_decision_making_def ds_def[symmetric] Let_def by simp
    then show ?thesis using lo hi by simp
  qed
qed

lemma awareness_loop_ge: "acc \<le> awareness_loop acts acc"
proof (induction acts arbitrary: acc)
  case Nil
  then show ?case by simp
next
  case (Cons a acts)
  show ?case using Cons.IH[of "acc + 10"] Cons.IH[of acc] by (auto simp: Let_def)
qed

lemma awareness_in_range:
  "70 \<le> assess_situational_awareness acts \<and> assess_situational_awareness acts \<le> 100"
  using awareness_loop_ge[of 70 acts] by (simp add: assess_situational_awareness_def)

lemma non_technical_in_range:
  assumes "duration s = Some (range_str a b)" "0 < a" "0 < b"
  shows "\<exists>nt. assess_non_technical_skills s acts t = Inr nt \<and> 0 \<le> nt \<and> nt \<le> 100"
proof -
  from time_management_returns[OF assms, of t] obtain v where
    v: "assess_time_management t s = Inr v" "30 \<le> v" "v \<le> 100" by blast
  have nt: "assess_non_technical_skills s acts t =
          Inr (assess_communication acts * 0.30 + assess_decision_making acts s * 0.35
               + v * 0.20 + assess_situational_awareness acts * 0.15)"
    by (simp add: assess_non_technical_skills_def v(1) bind_err_def Let_def)
  show ?thesis
    unfolding nt
    using communication_in_range[of acts] decision_in_range[of acts s] awareness_in_range[of acts] v(2,3)
    by simp
qed

lemma dynamic_complication_cases:
  "generate_dynamic_complication sd current_step k = Inl KeyError
   \<or> generate_dynamic_complication sd current_step k = Inr []
   \<or> (\<exists>d. generate_dynamic_complication sd current_step k = Inr d
          \<and> map fst d = [''description'', ''severity'', ''immediate_actions'', ''time_limit''])"
proof -
  have "k mod 3 = 0 \<or> k mod 3 = 1 \<or> k mod 3 = 2" by arith
  then show ?thesis
    by (cases "simulation sd")
       (auto simp: generate_dynamic_complication_def random_choice_def complication_scenarios_def
          get_default_def bind_err_def require_key_def)
qed

lemma dynamic_complication_without_scenario:
  "generate_dynamic_complication (sd\<lparr>simulation := None\<rparr>) current_step k = Inl KeyError"
  by (simp add: generate_dynamic_complication_def bind_err_def require_key_def)

lemma beginner_step_duration:
  assumes "duration s = Some (range_str a b)"
  shows "\<exists>s'. customize_step ''beginner'' s = Inr s'
            \<and> duration s' = Some (range_str (nat \<lfloor>int_times_float (int a) float_1_5\<rfloor>)
                                   (nat \<lfloor>int_times_float (int b) float_1_5\<rfloor>))
            \<and> guidance_level s' = Some ''detailed''"
proof -
  have "0 \<le> int_times_float (int a) float_1_5" "0 \<le> int_times_float (int b) float_1_5"
    unfolding float_1_5_def by (simp_all add: int_times_float_nonneg)
  moreover have "extend_duration (range_str a b) float_1_5
            = Inr (range_str (nat (trunc (int_times_float (int a) float_1_5)))
                     (nat (trunc (int_times_float (int b) float_1_5))))"
    unfolding float_1_5_def by (rule extend_duration_range) simp
  ultimately show ?thesis using assms
    by (simp add: customize_step_def require_key_def bind_err_def Let_def trunc_def)
qed

lemma expert_step_duration:
  assumes "duration s = Some (range_str a b)"
  shows "\<exists>s'. customize_step ''expert'' s = Inr s'
            \<and> duration s' = Some (range_str (nat \<lfloor>int_times_float (int a) float_0_7\<rfloor>)
                                   (nat \<lfloor>int_times_float (int b) float_0_7\<rfloor>))
            \<and> guidance_level s' = Some ''none''"
proof -
  have "0 \<le> int_times_float (int a) float_0_7" "0 \<le> int_times_float (int b) float_0_7"
    unfolding float_0_7_def by (simp_all add: int_times_float_nonneg)
  moreover have "reduce_duration (range_str a b) float_0_7
            = Inr (range_str (nat (trunc (int_times_float (int a) float_0_7)))
                     (nat (trunc (int_times_float (int b) float_0_7))))"
    unfolding float_0_7_def by (rule reduce_duration_range) simp
  ultimately show ?thesis using assms
    by (simp add: customize_step_def require_key_def bind_err_def Let_def trunc_def)
qed

text \<open>
  The products are doubles: 90 times the double \<open>0.7\<close> is just below 63, and 21 / 60 is
  just below 0.35.
\<close>

lemma expert_duration_60_90:
  "reduce_duration ''60-90 minutes'' float_0_7 = Inr ''42-62 minutes''"
  by code_simp

lemma expert_duration_10_15:
  "reduce_duration ''10-15 minutes'' float_0_7 = Inr ''7-10 minutes''"
  by code_simp

lemma reduced_duration_10_15:
  "reduce_duration ''10-15 minutes'' float_0_8 = Inr ''8-12 minutes''"
  by code_simp

lemma round1_21_seconds: "round1 (nearest_double 21 60) = 3 / 10"
  by code_simp

lemma consistency_single: "py_str (calculate_consistency [x]) = ''100.0''"
  by (simp add: calculate_consistency_def py_str_def int_str_def nat_str.simps digit_char_def)

lemma sqrt_9: "sqrt 9 = 3"
  using real_sqrt_abs[of 3] by simp

lemma consistency_two: "py_str (calculate_consistency [80, 74]) = ''94.0''"
  by (simp add: calculate_consistency_def sqrt_9 round1_def round_half_even_def py_str_def
      int_str_def nat_str.simps digit_char_def Let_def)

lemma consistency_floor: "py_str (calculate_consistency [100, 0]) = ''0''"
proof -
  have "sqrt 2500 = 50" using real_sqrt_abs[of 50] by simp
  then show ?thesis
    by (simp add: calculate_consistency_def py_str_def int_str_def nat_str.simps digit_char_def
        Let_def)
qed

lemma final_feedback_note:
  assumes "simulation sd = Some sc" "difficulty_level sc = Some d"
  shows "\<exists>ff. generate_final_feedback overall tr sd = Inr ff
            \<and> consistency_note ff = ''Consistency rating: '' @ py_str (consistency tr) @ ''%''"
  using assms by (simp add: generate_final_feedback_def require_key_def bind_err_def Let_def)

lemma intermediate_step_duration:
  "\<exists>s'. customize_step ''intermediate'' s = Inr s' \<and> duration s' = duration s
        \<and> guidance_level s' = Some ''moderate''"
  by (simp add: customize_step_def Let_def)

end
